theory Spec2Isabelle
  imports Main "HOL-Library.Word"
begin

section \<open>Errors\<close>

text \<open>
  A Go \<^verbatim>\<open>error\<close> is a value of type \<open>error option\<close>: \<open>None\<close> is \<^verbatim>\<open>nil\<close>.
  \<open>Wrap msg e\<close> is the value of \<^verbatim>\<open>xerrors.Errorf("msg: %w", e)\<close>. The leaves are the
  errors of the collaborators: a file that does not exist, the two errors of
  \<^verbatim>\<open>strconv\<close>, and a failure reported by an external command.
  \<open>FormatError e\<close> is \<^verbatim>\<open>xerrors.New(yaml.FormatError(e, true, true))\<close>. \<open>NilPointerPanic\<close>
  is the run-time panic of a field read through a nil pointer: it is not an error
  value of the program, it unwinds through every caller, and so \<open>Errorf\<close> leaves it
  unwrapped.
\<close>

datatype error =
    NotExist string
  | ErrSyntax string
  | ErrRange string
  | External string
  | Wrap string error
  | FormatError error
  | NilPointerPanic

fun Errorf :: "string \<Rightarrow> error \<Rightarrow> error" where
  "Errorf msg NilPointerPanic = NilPointerPanic"
| "Errorf msg e = Wrap msg e"

section \<open>Decimal text of integers: \<^verbatim>\<open>fmt\<close> and \<^verbatim>\<open>strconv\<close>\<close>

text \<open>
  The Go \<^verbatim>\<open>int\<close> is a 64-bit two's complement word, read with \<open>sint\<close>.
  \<open>Sprint_int\<close> is \<^verbatim>\<open>fmt.Sprintf("%d", i)\<close> and \<^verbatim>\<open>fmt.Sprint(i)\<close> on an integer:
  the decimal digits, most significant first, after a minus sign when negative.
\<close>

type_synonym go_int = "64 word"

definition digit_char :: "nat \<Rightarrow> char" where
  "digit_char d = char_of (48 + d)"

fun decimal :: "nat \<Rightarrow> string" where
  "decimal n = (if n < 10 then [digit_char n] else decimal (n div 10) @ [digit_char (n mod 10)])"

declare decimal.simps [simp del]

definition Sprint_int :: "int \<Rightarrow> string" where
  "Sprint_int i = (if i < 0 then CHR ''-'' # decimal (nat (- i)) else decimal (nat i))"

text \<open>
  \<^verbatim>\<open>strconv.ParseUint(s, 10, 64)\<close>: the loop over the bytes of \<open>s\<close> with the
  accumulator \<open>n\<close>, a \<^verbatim>\<open>uint64\<close> written as a \<open>nat\<close> with the wrap-around of
  \<^verbatim>\<open>n + d\<close> written out. A byte that is not a decimal digit is a syntax error (a
  letter is a digit of value ten or more, which base 10 refuses; an underscore is
  accepted in base 0 only). \<open>cutoff\<close> is the least number whose tenfold exceeds
  the largest \<^verbatim>\<open>uint64\<close>. The first argument is the whole input, kept for the
  error value.
\<close>

definition maxUint64 :: nat where
  "maxUint64 = 2 ^ 64 - 1"

definition cutoff :: nat where
  "cutoff = maxUint64 div 10 + 1"

definition is_digit :: "char \<Rightarrow> bool" where
  "is_digit c = (of_char (CHR ''0'') \<le> (of_char c :: nat) \<and> (of_char c :: nat) \<le> of_char (CHR ''9''))"

fun ParseUint_loop :: "string \<Rightarrow> nat \<Rightarrow> string \<Rightarrow> error + nat" where
  "ParseUint_loop s0 n [] = Inr n"
| "ParseUint_loop s0 n (c # cs) =
     (if is_digit c then
        (let d = (of_char c :: nat) - of_char (CHR ''0'') in
         if n \<ge> cutoff then Inl (ErrRange s0)
         else
           (let n10 = n * 10; n1 = (n10 + d) mod 2 ^ 64 in
            if n1 < n10 \<or> n1 > maxUint64 then Inl (ErrRange s0)
            else ParseUint_loop s0 n1 cs))
      else Inl (ErrSyntax s0))"

definition ParseUint :: "string \<Rightarrow> error + nat" where
  "ParseUint s = (if s = [] then Inl (ErrSyntax s) else ParseUint_loop s 0 s)"

text \<open>
  \<^verbatim>\<open>strconv.ParseInt(s, 10, 64)\<close>: an optional sign, then \<open>ParseUint\<close>, then the
  range of \<^verbatim>\<open>int64\<close>. A syntax error names the whole input; a range error of
  \<open>ParseUint\<close> comes with the largest \<^verbatim>\<open>uint64\<close>, which the range check below
  refuses in its turn.
\<close>

definition ParseInt :: "string \<Rightarrow> error + int" where
  "ParseInt s0 =
     (case s0 of
        [] \<Rightarrow> Inl (ErrSyntax s0)
      | c # cs \<Rightarrow>
          (let neg = (c = CHR ''-'');
               s = (if c = CHR ''+'' \<or> c = CHR ''-'' then cs else s0)
           in case ParseUint s of
                Inl (ErrRange _) \<Rightarrow> Inl (ErrRange s0)
              | Inl _ \<Rightarrow> Inl (ErrSyntax s0)
              | Inr un \<Rightarrow>
                  if \<not> neg \<and> un \<ge> 2 ^ 63 then Inl (ErrRange s0)
                  else if neg \<and> un > 2 ^ 63 then Inl (ErrRange s0)
                  else Inr (if neg then - int un else int un)))"

section \<open>Collaborators outside the source files\<close>

text \<open>
  Modelled from the spec: the Process Handle (\<^verbatim>\<open>Command\<close>, \<^verbatim>\<open>NewCommand\<close>,
  \<^verbatim>\<open>AddEnv\<close>, \<^verbatim>\<open>RunAsync\<close>, \<^verbatim>\<open>Stop\<close>), the build tool invocation (\<^verbatim>\<open>GoCommand\<close>,
  \<^verbatim>\<open>NewGoCommand\<close>, \<^verbatim>\<open>EnableCrossBuild\<close>, \<^verbatim>\<open>SetDir\<close>, \<^verbatim>\<open>RunInGoContext\<close>,
  \<^verbatim>\<open>Build\<close>), the Remote Command Gateway (\<^verbatim>\<open>NewDockerCommand\<close> and its \<^verbatim>\<open>Run\<close>) and
  \<^verbatim>\<open>ExpandPath\<close> are called by the reloader and defined in files that are missing. A
  command is the data given to it; running it is an event of the trace, and
  whether it fails is decided by an oracle of the record \<open>sys\<close>, which may depend
  on everything that happened before.
\<close>

record Command =
  args :: "string list"
  env :: "string list"

record GoCommand =
  goenv :: "string list"
  cross :: "string option"
  dir :: "string option"

datatype event =
    Print string
  | GoRunInGoContext GoCommand "string list"
  | GoBuild GoCommand "string list"
  | DockerRun string "string list"
  | DockerRunAsync string "string list"
  | CommandRunAsync Command
  | CommandStop Command
  | NotifySIGHUP

record sys =
  Getpid :: go_int
  cwd :: string
  rebirthDir :: string
  ExpandPath :: "string \<Rightarrow> string"
  WriteFile_fails :: "string \<Rightarrow> string \<Rightarrow> error option"
  GoCommand_fails :: "event list \<Rightarrow> GoCommand \<Rightarrow> string list \<Rightarrow> error option"
  DockerCommand_fails :: "event list \<Rightarrow> string \<Rightarrow> string list \<Rightarrow> error option"
  Stop_fails :: "event list \<Rightarrow> Command \<Rightarrow> error option"

text \<open>
  The file system is a map from paths to contents: \<^verbatim>\<open>ioutil.ReadFile\<close> of an absent
  path fails, \<^verbatim>\<open>os.Stat\<close> succeeds exactly on the paths present. The trace lists
  the effects in the order they happened, the latest last.
\<close>

record world =
  files :: "string \<rightharpoonup> string"
  trace :: "event list"

definition emit :: "event \<Rightarrow> world \<Rightarrow> world" where
  "emit e w = w\<lparr>trace := trace w @ [e]\<rparr>"

definition NewCommand :: "string list \<Rightarrow> Command" where
  "NewCommand as = \<lparr>args = as, env = []\<rparr>"

definition AddEnv :: "string list \<Rightarrow> Command \<Rightarrow> Command" where
  "AddEnv e c = c\<lparr>env := env c @ e\<rparr>"

definition RunAsync :: "Command \<Rightarrow> world \<Rightarrow> world" where
  "RunAsync c w = emit (CommandRunAsync c) w"

definition Stop :: "sys \<Rightarrow> Command \<Rightarrow> world \<Rightarrow> error option \<times> world" where
  "Stop s c w = (Stop_fails s (trace w) c, emit (CommandStop c) w)"

definition NewGoCommand :: GoCommand where
  "NewGoCommand = \<lparr>goenv = [], cross = None, dir = None\<rparr>"

definition GoAddEnv :: "string list \<Rightarrow> GoCommand \<Rightarrow> GoCommand" where
  "GoAddEnv e g = g\<lparr>goenv := goenv g @ e\<rparr>"

definition EnableCrossBuild :: "string \<Rightarrow> GoCommand \<Rightarrow> GoCommand" where
  "EnableCrossBuild target g = g\<lparr>cross := Some target\<rparr>"

definition SetDir :: "string \<Rightarrow> GoCommand \<Rightarrow> GoCommand" where
  "SetDir d g = g\<lparr>dir := Some d\<rparr>"

definition RunInGoContext :: "sys \<Rightarrow> GoCommand \<Rightarrow> string list \<Rightarrow> world \<Rightarrow> error option \<times> world" where
  "RunInGoContext s g as w = (GoCommand_fails s (trace w) g as, emit (GoRunInGoContext g as) w)"

definition Build_go :: "sys \<Rightarrow> GoCommand \<Rightarrow> string list \<Rightarrow> world \<Rightarrow> error option \<times> world" where
  "Build_go s g as w = (GoCommand_fails s (trace w) g as, emit (GoBuild g as) w)"

definition DockerCommand_Run :: "sys \<Rightarrow> string \<Rightarrow> string list \<Rightarrow> world \<Rightarrow> error option \<times> world" where
  "DockerCommand_Run s container as w =
     (DockerCommand_fails s (trace w) container as, emit (DockerRun container as) w)"

text \<open>
  \<^verbatim>\<open>strings.Split(cmd, " ")\<close>: the pieces between single spaces; an empty input
  gives one empty piece, two spaces in a row an empty piece between them.
\<close>

fun Split_space :: "string \<Rightarrow> string list" where
  "Split_space [] = [ [] ]"
| "Split_space (c # cs) =
     (if c = CHR '' '' then [] # Split_space cs
      else (case Split_space cs of [] \<Rightarrow> [ [c] ] | p # ps \<Rightarrow> (c # p) # ps))"

text \<open>
  \<^verbatim>\<open>filepath.Join\<close> on the elements the reloader gives it: empty elements are
  dropped and the others joined by a slash. The cleaning of the result is the
  identity on these inputs when the working directory is a cleaned path other
  than the root.
\<close>

fun Join :: "string list \<Rightarrow> string" where
  "Join [] = []"
| "Join (p # ps) =
     (if p = [] then Join ps
      else if Join ps = [] then p
      else p @ ''/'' @ Join ps)"

section \<open>Configuration (config.go)\<close>

text \<open>
  Modelled from the spec: \<^verbatim>\<open>Build\<close> is declared in config.go with the field \<^verbatim>\<open>Env\<close>
  only, while reloader.go reads \<^verbatim>\<open>r.build.Init\<close>, \<^verbatim>\<open>r.build.Before\<close> and
  \<^verbatim>\<open>r.build.After\<close>; the declaration of these three fields is missing and they are
  taken from the spec as ordered lists of commands, which nothing in config.go
  fills. A Go map is an association
  list here, and a \<^verbatim>\<open>range\<close> over it visits the pairs in the order of the list
  (Go leaves the order open). The field \<^verbatim>\<open>Env\<close> of \<^verbatim>\<open>Run\<close> is \<open>RunEnv\<close>.
\<close>

record Host =
  Docker :: string

record Build =
  Init :: "string list"
  Before :: "string list"
  After :: "string list"
  Env :: "(string \<times> string) list"

record RunConfig =
  RunEnv :: "(string \<times> string) list"

record Config =
  cfgHost :: "Host option"
  cfgBuild :: "Build option"
  cfgRun :: "RunConfig option"

text \<open>
  \<open>LoadConfig\<close> reads the file and hands its text to \<^verbatim>\<open>yaml.Unmarshal\<close>. The
  library's reading of the text into a document is the parameter \<open>parse\<close>; a
  document is a scalar, a sequence or a mapping. The decoding of the document is
  directed by the declarations of config.go: each declared field takes the value
  under its yaml key (\<^verbatim>\<open>host\<close>, \<^verbatim>\<open>docker\<close>, \<^verbatim>\<open>build\<close>, \<^verbatim>\<open>env\<close>, \<^verbatim>\<open>run\<close>), a key
  that is absent leaves the zero value, and a key of the document that no
  declared field carries is skipped (the library refuses such keys under its
  strict option only, which \<open>LoadConfig\<close> does not set). \<^verbatim>\<open>Build\<close> as declared
  has the one field \<^verbatim>\<open>Env\<close>: a decoded value has nothing in \<open>Init\<close>, \<open>Before\<close>
  and \<open>After\<close>.
\<close>

datatype yaml = Scalar string | Sequence "yaml list" | Mapping "(string \<times> yaml) list"

fun decode_string_map :: "(string \<times> yaml) list \<Rightarrow> error + (string \<times> string) list" where
  "decode_string_map [] = Inr []"
| "decode_string_map ((k, Scalar v) # kvs) =
     (case decode_string_map kvs of Inl e \<Rightarrow> Inl e | Inr m \<Rightarrow> Inr ((k, v) # m))"
| "decode_string_map ((k, v) # kvs) = Inl (External ''cannot unmarshal into string'')"

definition decode_env :: "(string \<times> yaml) list \<Rightarrow> error + (string \<times> string) list" where
  "decode_env kvs =
     (case map_of kvs ''env'' of
        None \<Rightarrow> Inr []
      | Some (Mapping m) \<Rightarrow> decode_string_map m
      | Some _ \<Rightarrow> Inl (External ''cannot unmarshal into map[string]string''))"

definition decode_Host :: "yaml \<Rightarrow> error + Host" where
  "decode_Host y =
     (case y of
        Mapping kvs \<Rightarrow>
          (case map_of kvs ''docker'' of
             None \<Rightarrow> Inr \<lparr>Docker = []\<rparr>
           | Some (Scalar v) \<Rightarrow> Inr \<lparr>Docker = v\<rparr>
           | Some _ \<Rightarrow> Inl (External ''cannot unmarshal into string''))
      | _ \<Rightarrow> Inl (External ''cannot unmarshal into Host''))"

definition decode_Build :: "yaml \<Rightarrow> error + Build" where
  "decode_Build y =
     (case y of
        Mapping kvs \<Rightarrow>
          (case decode_env kvs of
             Inl e \<Rightarrow> Inl e
           | Inr m \<Rightarrow> Inr \<lparr>Init = [], Before = [], After = [], Env = m\<rparr>)
      | _ \<Rightarrow> Inl (External ''cannot unmarshal into Build''))"

definition decode_Run :: "yaml \<Rightarrow> error + RunConfig" where
  "decode_Run y =
     (case y of
        Mapping kvs \<Rightarrow>
          (case decode_env kvs of
             Inl e \<Rightarrow> Inl e
           | Inr m \<Rightarrow> Inr \<lparr>RunEnv = m\<rparr>)
      | _ \<Rightarrow> Inl (External ''cannot unmarshal into Run''))"

definition decode_section :: "(yaml \<Rightarrow> error + 'a) \<Rightarrow> (string \<times> yaml) list \<Rightarrow> string \<Rightarrow> error + 'a option" where
  "decode_section dec kvs key =
     (case map_of kvs key of
        None \<Rightarrow> Inr None
      | Some y \<Rightarrow> (case dec y of Inl e \<Rightarrow> Inl e | Inr v \<Rightarrow> Inr (Some v)))"

definition Unmarshal :: "yaml \<Rightarrow> error + Config" where
  "Unmarshal y =
     (case y of
        Mapping kvs \<Rightarrow>
          (case decode_section decode_Host kvs ''host'' of
             Inl e \<Rightarrow> Inl e
           | Inr h \<Rightarrow>
               (case decode_section decode_Build kvs ''build'' of
                  Inl e \<Rightarrow> Inl e
                | Inr b \<Rightarrow>
                    (case decode_section decode_Run kvs ''run'' of
                       Inl e \<Rightarrow> Inl e
                     | Inr rn \<Rightarrow> Inr \<lparr>cfgHost = h, cfgBuild = b, cfgRun = rn\<rparr>)))
      | _ \<Rightarrow> Inl (External ''cannot unmarshal into Config''))"

definition LoadConfig :: "(string \<Rightarrow> error + yaml) \<Rightarrow> world \<Rightarrow> string \<Rightarrow> error + Config" where
  "LoadConfig parse w confPath =
     (case files w confPath of
        None \<Rightarrow> Inl (Errorf (''failed to read config file from '' @ confPath) (NotExist confPath))
      | Some file \<Rightarrow>
          (case parse file of
             Inl e \<Rightarrow> Inl (FormatError e)
           | Inr y \<Rightarrow>
               (case Unmarshal y of
                  Inl e \<Rightarrow> Inl (FormatError e)
                | Inr cfg \<Rightarrow> Inr cfg)))"

section \<open>The reloader (reloader.go)\<close>

definition configDir :: string where
  "configDir = ''.rebirth''"

definition buildPath :: "sys \<Rightarrow> string" where
  "buildPath s = Join [cwd s, configDir, ''program'']"

definition pidPath :: string where
  "pidPath = Join [configDir, ''server.pid'']"

definition dockerRebirthPath :: string where
  "dockerRebirthPath = Join [configDir, ''__rebirth'']"

record Reloader =
  host :: "Host option"
  cmd :: "Command option"
  build :: "Build option"
  run :: "RunConfig option"

definition NewReloader :: "Config \<Rightarrow> Reloader" where
  "NewReloader cfg = \<lparr>host = cfgHost cfg, cmd = None, build = cfgBuild cfg, run = cfgRun cfg\<rparr>"

definition isUsedDocker :: "Reloader \<Rightarrow> bool" where
  "isUsedDocker r = (case host r of None \<Rightarrow> False | Some h \<Rightarrow> Docker h \<noteq> [])"

definition isOnDockerContainer :: "world \<Rightarrow> bool" where
  "isOnDockerContainer w = (files w (''/'' @ ''.dockerenv'') \<noteq> None)"

definition IsEnabledReload :: "Reloader \<Rightarrow> world \<Rightarrow> bool" where
  "IsEnabledReload r w =
     (if \<not> isUsedDocker r then True
      else if \<not> isOnDockerContainer w then True
      else False)"

text \<open>
  \<open>readPID\<close> returns the pair \<^verbatim>\<open>(-1, err)\<close> on an error; no caller reads the
  number then, and the model returns the error alone.
\<close>

definition readPID :: "world \<Rightarrow> error + go_int" where
  "readPID w =
     (case files w pidPath of
        None \<Rightarrow> Inl (Errorf ''failed to read pid file'' (NotExist pidPath))
      | Some file \<Rightarrow>
          (case ParseInt file of
             Inl e \<Rightarrow> Inl (Errorf ''failed to parse pid number'' e)
           | Inr pid \<Rightarrow> Inr (word_of_int pid)))"

definition writePID :: "sys \<Rightarrow> world \<Rightarrow> error option \<times> world" where
  "writePID s w =
     (let pid = Getpid s; content = Sprint_int (sint pid) in
      case WriteFile_fails s pidPath content of
        Some e \<Rightarrow> (Some (Errorf ''failed to write pid file'' e), w)
      | None \<Rightarrow> (None, w\<lparr>files := (files w)(pidPath \<mapsto> content)\<rparr>))"

definition stopCurrentProcess :: "sys \<Rightarrow> Reloader \<Rightarrow> world \<Rightarrow> error option \<times> Reloader \<times> world" where
  "stopCurrentProcess s r w =
     (case cmd r of
        None \<Rightarrow> (None, r, w)
      | Some c \<Rightarrow>
          (case Stop s c w of
             (Some e, w') \<Rightarrow> (Some (Errorf ''failed to stop process'' e), r, w')
           | (None, w') \<Rightarrow> (None, r\<lparr>cmd := None\<rparr>, w')))"

definition reload :: "sys \<Rightarrow> Reloader \<Rightarrow> world \<Rightarrow> error option \<times> Reloader \<times> world" where
  "reload s r w =
     (case stopCurrentProcess s r (emit (Print ''Restarting...'') w) of
        (Some e, r', w') \<Rightarrow> (Some (Errorf ''failed to stop current process'' e), r', w')
      | (None, r', w') \<Rightarrow>
          (let execCmd = NewCommand [buildPath s];
               execCmd = (case run r' of
                            None \<Rightarrow> execCmd
                          | Some rc \<Rightarrow> AddEnv (map (\<lambda>(k, v). k @ ''='' @ v) (RunEnv rc)) execCmd)
           in (None, r'\<lparr>cmd := Some execCmd\<rparr>, RunAsync execCmd w')))"

text \<open>
  The environment of a build command: one \<^verbatim>\<open>k=v\<close> entry for each pair of
  \<^verbatim>\<open>build.Env\<close>, the value expanded.
\<close>

definition buildEnv :: "sys \<Rightarrow> Build \<Rightarrow> string list" where
  "buildEnv s b = map (\<lambda>(k, v). k @ ''='' @ ExpandPath s v) (Env b)"

definition runBuildHookCommandInGoContext ::
  "sys \<Rightarrow> Reloader \<Rightarrow> string \<Rightarrow> world \<Rightarrow> error option \<times> world" where
  "runBuildHookCommandInGoContext s r c w =
     (case build r of
        None \<Rightarrow> (Some NilPointerPanic, w)
      | Some b \<Rightarrow>
          (let gocmd = GoAddEnv (buildEnv s b) NewGoCommand in
           case RunInGoContext s gocmd (Split_space c) w of
             (Some e, w') \<Rightarrow> (Some (Errorf (''failed to run command '' @ c) e), w')
           | (None, w') \<Rightarrow> (None, w')))"

text \<open>
  The three phase runners are the same loop over three fields, with three
  messages. \<open>runCommands\<close> is that loop: the message and the list are its
  third and fourth arguments. \<open>announce\<close> is the line
  \<^verbatim>\<open>fmt.Printf("Running: %s\n", cmd)\<close> prints before each command.
\<close>

definition announce :: "string \<Rightarrow> event" where
  "announce c = Print (''Running: '' @ c @ [CHR 0x0A])"

fun runCommands :: "sys \<Rightarrow> Reloader \<Rightarrow> string \<Rightarrow> string list \<Rightarrow> world \<Rightarrow> error option \<times> world" where
  "runCommands s r msg [] w = (None, w)"
| "runCommands s r msg (c # cs) w =
     (case runBuildHookCommandInGoContext s r c (emit (announce c) w) of
        (Some e, w') \<Rightarrow> (Some (Errorf msg e), w')
      | (None, w') \<Rightarrow> runCommands s r msg cs w')"

definition runBuildInitCommands :: "sys \<Rightarrow> Reloader \<Rightarrow> world \<Rightarrow> error option \<times> world" where
  "runBuildInitCommands s r w =
     (case build r of
        None \<Rightarrow> (Some NilPointerPanic, w)
      | Some b \<Rightarrow> runCommands s r ''failed to run command in build.init'' (Init b) w)"

definition runBuildBeforeCommands :: "sys \<Rightarrow> Reloader \<Rightarrow> world \<Rightarrow> error option \<times> world" where
  "runBuildBeforeCommands s r w =
     (case build r of
        None \<Rightarrow> (Some NilPointerPanic, w)
      | Some b \<Rightarrow> runCommands s r ''failed to run command in build.before'' (Before b) w)"

definition runBuildAfterCommands :: "sys \<Rightarrow> Reloader \<Rightarrow> world \<Rightarrow> error option \<times> world" where
  "runBuildAfterCommands s r w =
     (case build r of
        None \<Rightarrow> (Some NilPointerPanic, w)
      | Some b \<Rightarrow> runCommands s r ''failed to run command in build.after'' (After b) w)"

definition xbuildRebirth :: "sys \<Rightarrow> Reloader \<Rightarrow> world \<Rightarrow> error option \<times> world" where
  "xbuildRebirth s r w =
     (let cmdFile = Join [rebirthDir s, ''cmd'', ''rebirth'', ''main.go''] in
      case host r of
        None \<Rightarrow> (Some NilPointerPanic, w)
      | Some h \<Rightarrow>
          (let gocmd = SetDir (rebirthDir s) (EnableCrossBuild (Docker h) NewGoCommand);
               gocmd = (case build r of
                          None \<Rightarrow> gocmd
                        | Some b \<Rightarrow> GoAddEnv (buildEnv s b) gocmd)
           in case Build_go s gocmd [''-o'', Join [cwd s, dockerRebirthPath], cmdFile] w of
                (Some e, w') \<Rightarrow> (Some (Errorf ''failed to cross build rebirth'' e), w')
              | (None, w') \<Rightarrow> (None, w')))"

text \<open>
  In \<open>xbuild\<close> the cross build reads \<^verbatim>\<open>r.host.Docker\<close> under \<open>isUsedDocker\<close>,
  where the host is not nil.
\<close>

definition xbuild :: "sys \<Rightarrow> Reloader \<Rightarrow> string \<Rightarrow> string \<Rightarrow> world \<Rightarrow> error option \<times> world" where
  "xbuild s r target source w =
     (case runBuildBeforeCommands s r (emit (Print ''Building....'') w) of
        (Some e, w1) \<Rightarrow> (Some (Errorf ''failed to run build.before commands'' e), w1)
      | (None, w1) \<Rightarrow>
          (let gocmd = (case build r of
                          None \<Rightarrow> NewGoCommand
                        | Some b \<Rightarrow> GoAddEnv (buildEnv s b) NewGoCommand);
               gocmd = (if isUsedDocker r \<and> \<not> isOnDockerContainer w1
                        then (case host r of
                                None \<Rightarrow> gocmd
                              | Some h \<Rightarrow> EnableCrossBuild (Docker h) gocmd)
                        else gocmd)
           in case Build_go s gocmd [''-o'', target, source] w1 of
                (Some e, w2) \<Rightarrow> (Some (Errorf ''failed to build'' e), w2)
              | (None, w2) \<Rightarrow>
                  (case runBuildAfterCommands s r w2 of
                     (Some e, w3) \<Rightarrow> (Some (Errorf ''failed to run build.after commands'' e), w3)
                   | (None, w3) \<Rightarrow> (None, w3))))"

definition sendReloadingSignal :: "sys \<Rightarrow> Reloader \<Rightarrow> world \<Rightarrow> error option \<times> Reloader \<times> world" where
  "sendReloadingSignal s r w =
     (case host r of
        Some h \<Rightarrow>
          (if Docker h \<noteq> [] then
             (case readPID w of
                Inl e \<Rightarrow> (Some (Errorf ''failed to read pid'' e), r, w)
              | Inr pid \<Rightarrow>
                  (case DockerCommand_Run s (Docker h) [''kill'', ''-HUP'', Sprint_int (sint pid)] w of
                     (Some e, w') \<Rightarrow> (Some (Errorf ''failed to exec command on docker container'' e), r, w')
                   | (None, w') \<Rightarrow> (None, r, w')))
           else
             (case reload s r w of
                (Some e, r', w') \<Rightarrow> (Some (Errorf ''failed to reload'' e), r', w')
              | (None, r', w') \<Rightarrow> (None, r', w')))
      | None \<Rightarrow>
          (case reload s r w of
             (Some e, r', w') \<Rightarrow> (Some (Errorf ''failed to reload'' e), r', w')
           | (None, r', w') \<Rightarrow> (None, r', w')))"

definition Reload :: "sys \<Rightarrow> Reloader \<Rightarrow> world \<Rightarrow> error option \<times> Reloader \<times> world" where
  "Reload s r w =
     (case xbuild s r (buildPath s) ''.'' w of
        (Some e, w') \<Rightarrow> (Some (Errorf ''failed to build on host'' e), r, w')
      | (None, w') \<Rightarrow>
          (case sendReloadingSignal s r w' of
             (Some e, r', w'') \<Rightarrow> (Some (Errorf ''failed to send reloading signal'' e), r', w'')
           | (None, r', w'') \<Rightarrow> (None, r', w'')))"

definition Close :: "sys \<Rightarrow> Reloader \<Rightarrow> world \<Rightarrow> error option \<times> Reloader \<times> world" where
  "Close s r w =
     (if \<not> isUsedDocker r then (None, r, w)
      else if isOnDockerContainer w then
        (case stopCurrentProcess s r (emit (Print ''stop current process...'') w) of
           (Some e, r', w') \<Rightarrow> (Some (Errorf ''failed to stop current process'' e), r', w')
         | (None, r', w') \<Rightarrow> (None, r', w'))
      else
        (case readPID w of
           Inl e \<Rightarrow> (Some (Errorf ''failed to read pid'' e), r, w)
         | Inr pid \<Rightarrow>
             (case host r of
                None \<Rightarrow> (Some NilPointerPanic, r, w)
              | Some h \<Rightarrow>
                  (case DockerCommand_Run s (Docker h) [''kill'', ''-QUIT'', Sprint_int (sint pid)]
                          (emit (Print ''stop hot reloader on container...'') w) of
                     (Some e, w') \<Rightarrow> (Some (Errorf ''failed to exec command on docker container'' e), r, w')
                   | (None, w') \<Rightarrow> (None, r, w')))))"

text \<open>
  \<open>watchReloadSignal\<close> subscribes to SIGHUP and starts the goroutine that answers
  each signal with \<^verbatim>\<open>go r.reload()\<close>. The subscription is an event;
  \<open>handleSIGHUP\<close> is what one delivered signal runs, its error dropped as the
  \<^verbatim>\<open>go\<close> statement drops it. Goroutines are run one after the other here.
\<close>

definition watchReloadSignal :: "world \<Rightarrow> world" where
  "watchReloadSignal w = emit NotifySIGHUP w"

definition handleSIGHUP :: "sys \<Rightarrow> Reloader \<Rightarrow> world \<Rightarrow> Reloader \<times> world" where
  "handleSIGHUP s r w = (case reload s r w of (e, r', w') \<Rightarrow> (r', w'))"

text \<open>
  \<open>Run\<close> returns an error from its startup sequence, or subscribes to the signal
  and sleeps in a loop that has no exit and changes nothing: \<open>Waiting\<close>. The
  peer is launched by \<^verbatim>\<open>go NewDockerCommand(...).Run()\<close>, whose outcome nobody
  reads. The three arms of the conditional are \<open>Run_reloadDisabled\<close> (taken when
  \<open>IsEnabledReload\<close> is false), \<open>Run_crossBuild\<close> (the \<^verbatim>\<open>else if\<close>) and
  \<open>Run_localhost\<close> (the \<^verbatim>\<open>else\<close>, "running reloader on localhost"), each followed
  by \<open>watchReloadSignal\<close>.
\<close>

datatype run_result = Returned error | Waiting

definition Run_reloadDisabled :: "sys \<Rightarrow> Reloader \<Rightarrow> world \<Rightarrow> run_result \<times> Reloader \<times> world" where
  "Run_reloadDisabled s r w =
     (case writePID s w of
        (Some e, w1) \<Rightarrow> (Returned (Errorf ''failed to write pid'' e), r, w1)
      | (None, w1) \<Rightarrow>
          (case reload s r w1 of
             (Some e, r2, w2) \<Rightarrow> (Returned (Errorf ''failed to reload'' e), r2, w2)
           | (None, r2, w2) \<Rightarrow> (Waiting, r2, watchReloadSignal w2)))"

definition Run_crossBuild :: "sys \<Rightarrow> Reloader \<Rightarrow> world \<Rightarrow> run_result \<times> Reloader \<times> world" where
  "Run_crossBuild s r w =
     (case xbuildRebirth s r w of
        (Some e, w1) \<Rightarrow> (Returned (Errorf ''failed to cross compile for rebirth'' e), r, w1)
      | (None, w1) \<Rightarrow>
          (case runBuildInitCommands s r w1 of
             (Some e, w2) \<Rightarrow> (Returned (Errorf ''failed to build.init commands'' e), r, w2)
           | (None, w2) \<Rightarrow>
               (case xbuild s r (buildPath s) ''.'' w2 of
                  (Some e, w3) \<Rightarrow> (Returned (Errorf ''failed to build on host'' e), r, w3)
                | (None, w3) \<Rightarrow>
                    (case host r of
                       None \<Rightarrow> (Returned NilPointerPanic, r, w3)
                     | Some h \<Rightarrow>
                         (Waiting, r,
                          watchReloadSignal (emit (DockerRunAsync (Docker h) [dockerRebirthPath]) w3))))))"

definition Run_localhost :: "sys \<Rightarrow> Reloader \<Rightarrow> world \<Rightarrow> run_result \<times> Reloader \<times> world" where
  "Run_localhost s r w =
     (case runBuildInitCommands s r w of
        (Some e, w1) \<Rightarrow> (Returned (Errorf ''failed to build.init commands'' e), r, w1)
      | (None, w1) \<Rightarrow>
          (case xbuild s r (buildPath s) ''.'' w1 of
             (Some e, w2) \<Rightarrow> (Returned (Errorf ''failed to build on host'' e), r, w2)
           | (None, w2) \<Rightarrow>
               (case reload s r w2 of
                  (Some e, r3, w3) \<Rightarrow> (Returned (Errorf ''failed to reload'' e), r3, w3)
                | (None, r3, w3) \<Rightarrow> (Waiting, r3, watchReloadSignal w3))))"

definition Run :: "sys \<Rightarrow> Reloader \<Rightarrow> world \<Rightarrow> run_result \<times> Reloader \<times> world" where
  "Run s r w =
     (if \<not> IsEnabledReload r w then Run_reloadDisabled s r w
      else if isUsedDocker r \<and> \<not> isOnDockerContainer w then Run_crossBuild s r w
      else Run_localhost s r w)"

section \<open>The Topology Mode of the specification\<close>

text \<open>
  The specification's mode, in its words: no remote target gives \<open>Local\<close>
  whatever the marker; a remote target with the marker gives \<open>InsideRemote\<close>,
  without it \<open>HostDelegating\<close>. The source has no such value: it asks
  \<open>isUsedDocker\<close> and \<open>isOnDockerContainer\<close> where it decides.
\<close>

datatype TopologyMode = Local | HostDelegating | InsideRemote

definition topologyMode :: "bool \<Rightarrow> bool \<Rightarrow> TopologyMode" where
  "topologyMode remoteConfigured markerPresent =
     (if \<not> remoteConfigured then Local
      else if markerPresent then InsideRemote
      else HostDelegating)"

section \<open>What a phase is expected to leave in the trace\<close>

text \<open>
  Each command of a phase is announced and then run in the Go context with the
  build environment. \<open>hookEvents\<close> lists these two events for each command of a
  list; \<open>hookFails\<close> is the outcome of one command run after the trace \<open>t\<close>.
\<close>

definition hookCommand :: "sys \<Rightarrow> Build \<Rightarrow> GoCommand" where
  "hookCommand s b = GoAddEnv (buildEnv s b) NewGoCommand"

fun hookEvents :: "sys \<Rightarrow> Build \<Rightarrow> string list \<Rightarrow> event list" where
  "hookEvents s b [] = []"
| "hookEvents s b (c # cs) =
     announce c # GoRunInGoContext (hookCommand s b) (Split_space c) # hookEvents s b cs"

definition hookFails :: "sys \<Rightarrow> Build \<Rightarrow> event list \<Rightarrow> string \<Rightarrow> error option" where
  "hookFails s b t c = GoCommand_fails s (t @ [announce c]) (hookCommand s b) (Split_space c)"

section \<open>What a build and a restart are expected to leave in the trace\<close>

text \<open>
  \<open>newChild\<close> is the command \<open>reload\<close> starts: the built program with the run
  environment. \<open>restartEvents\<close> are the events of a \<open>reload\<close> that succeeds:
  the line it prints, the stop of the tracked child if there is one, the start
  of the new child. \<open>buildEvents\<close> are the events of an \<open>xbuild\<close> of the
  program that succeeds: the line it prints, the before phase, the compiler
  (cross-building for \<open>crossTarget\<close>), the after phase.
\<close>

definition newChild :: "sys \<Rightarrow> Reloader \<Rightarrow> Command" where
  "newChild s r =
     (case run r of
        None \<Rightarrow> NewCommand [buildPath s]
      | Some rc \<Rightarrow> AddEnv (map (\<lambda>(k, v). k @ ''='' @ v) (RunEnv rc)) (NewCommand [buildPath s]))"

definition stopEvents :: "Reloader \<Rightarrow> event list" where
  "stopEvents r = (case cmd r of None \<Rightarrow> [] | Some c \<Rightarrow> [CommandStop c])"

definition restartEvents :: "sys \<Rightarrow> Reloader \<Rightarrow> event list" where
  "restartEvents s r = Print ''Restarting...'' # stopEvents r @ [CommandRunAsync (newChild s r)]"

definition crossTarget :: "Reloader \<Rightarrow> world \<Rightarrow> string option" where
  "crossTarget r w =
     (if isUsedDocker r \<and> \<not> isOnDockerContainer w then map_option Docker (host r) else None)"

definition compileCommand :: "sys \<Rightarrow> Build \<Rightarrow> string option \<Rightarrow> GoCommand" where
  "compileCommand s b target =
     (case target of
        None \<Rightarrow> GoAddEnv (buildEnv s b) NewGoCommand
      | Some t \<Rightarrow> EnableCrossBuild t (GoAddEnv (buildEnv s b) NewGoCommand))"

definition buildEvents :: "sys \<Rightarrow> Build \<Rightarrow> string option \<Rightarrow> event list" where
  "buildEvents s b target =
     Print ''Building....'' # hookEvents s b (Before b) @
     [GoBuild (compileCommand s b target) [''-o'', buildPath s, ''.'']] @
     hookEvents s b (After b)"

text \<open>The events that touch a child process, and the events that run the build tool.\<close>

fun processEvent :: "event \<Rightarrow> bool" where
  "processEvent (CommandRunAsync c) = True"
| "processEvent (CommandStop c) = True"
| "processEvent e = False"

fun buildToolEvent :: "event \<Rightarrow> bool" where
  "buildToolEvent (GoRunInGoContext g a) = True"
| "buildToolEvent (GoBuild g a) = True"
| "buildToolEvent e = False"

text \<open>
  \<open>stopOutcome\<close> is the outcome of the stop a \<open>reload\<close> begins with, after the
  trace \<open>t\<close>: nothing to stop, or the outcome of stopping the tracked child.
\<close>

definition stopOutcome :: "sys \<Rightarrow> Reloader \<Rightarrow> event list \<Rightarrow> error option" where
  "stopOutcome s r t =
     (case cmd r of None \<Rightarrow> None | Some c \<Rightarrow> Stop_fails s (t @ [Print ''Restarting...'']) c)"

section \<open>Concrete systems\<close>

text \<open>
  A system whose collaborators never fail, with process id 4242 and working
  directory \<^verbatim>\<open>/app\<close>; a host without and a container with the marker file; a
  configuration with one command in each phase; a child left by an earlier start.
\<close>

definition sys_ok :: sys where
  "sys_ok = \<lparr>Getpid = 4242, cwd = ''/app'', rebirthDir = ''/go/rebirth'',
     ExpandPath = (\<lambda>v. v),
     WriteFile_fails = (\<lambda>p c. None),
     GoCommand_fails = (\<lambda>t g a. None),
     DockerCommand_fails = (\<lambda>t c a. None),
     Stop_fails = (\<lambda>t c. None)\<rparr>"

definition world_host :: world where
  "world_host = \<lparr>files = Map.empty, trace = []\<rparr>"

definition world_container :: world where
  "world_container = \<lparr>files = [''/.dockerenv'' \<mapsto> []], trace = []\<rparr>"

definition build_cfg :: Build where
  "build_cfg = \<lparr>Init = [''mod download''], Before = [''generate ./...''], After = [''vet ./...''],
     Env = [(''CGO_ENABLED'', ''0'')]\<rparr>"

definition child :: Command where
  "child = \<lparr>args = [''/app/.rebirth/program''], env = []\<rparr>"

definition reloader_local :: Reloader where
  "reloader_local = \<lparr>host = None, cmd = None, build = Some build_cfg, run = None\<rparr>"

definition reloader_docker :: Reloader where
  "reloader_docker = \<lparr>host = Some \<lparr>Docker = ''web''\<rparr>, cmd = None, build = Some build_cfg, run = None\<rparr>"

text \<open>
  A system where the command \<^verbatim>\<open>false\<close> fails and every other command succeeds,
  and a configuration whose init phase has it in second place.
\<close>

definition sys_failing :: sys where
  "sys_failing = sys_ok\<lparr>GoCommand_fails :=
     (\<lambda>t g a. if a = [''false''] then Some (External ''exit status 1'') else None)\<rparr>"

definition build_failing :: Build where
  "build_failing = \<lparr>Init = [''true'', ''false'', ''mod download''], Before = [], After = [], Env = []\<rparr>"

definition reloader_failing :: Reloader where
  "reloader_failing = \<lparr>host = None, cmd = None, build = Some build_failing, run = None\<rparr>"

text \<open>A system where stopping a child fails.\<close>

definition sys_stop_fails :: sys where
  "sys_stop_fails = sys_ok\<lparr>Stop_fails := (\<lambda>t c. Some (External ''operation not permitted''))\<rparr>"

text \<open>
  A host where the peer has left its process id 4242 in the pid file, and a
  reloader that tracks a child.
\<close>

definition world_host_pid :: world where
  "world_host_pid = \<lparr>files = [''.rebirth/server.pid'' \<mapsto> ''4242''], trace = []\<rparr>"

definition reloader_local_child :: Reloader where
  "reloader_local_child = \<lparr>host = None, cmd = Some child, build = Some build_cfg, run = None\<rparr>"

definition reloader_docker_child :: Reloader where
  "reloader_docker_child =
     \<lparr>host = Some \<lparr>Docker = ''web''\<rparr>, cmd = Some child, build = Some build_cfg, run = None\<rparr>"

text \<open>A system where the compiler fails and every other command succeeds.\<close>

definition sys_compile_fails :: sys where
  "sys_compile_fails = sys_ok\<lparr>GoCommand_fails :=
     (\<lambda>t g a. if take 1 a = [''-o''] then Some (External ''exit status 2'') else None)\<rparr>"

text \<open>
  A configuration file whose build section lists one command for each phase
  beside the environment, as the library reads it.
\<close>

definition config_document :: yaml where
  "config_document =
     Mapping [(''build'', Mapping
       [(''init'', Sequence [Scalar ''mod download'']),
        (''before'', Sequence [Scalar ''generate ./...'']),
        (''after'', Sequence [Scalar ''vet ./...'']),
        (''env'', Mapping [(''CGO_ENABLED'', Scalar ''0'')])])]"

definition world_config :: world where
  "world_config = \<lparr>files = [''rebirth.yml'' \<mapsto> ''build: ...''], trace = []\<rparr>"

section \<open>Decimal text read back\<close>

lemma is_digit_digit_char: "d < 10 \<Longrightarrow> is_digit (digit_char d)"
  by (simp add: is_digit_def digit_char_def)

lemma val_digit_char: "d < 10 \<Longrightarrow> (of_char (digit_char d) :: nat) - 48 = d"
  by (simp add: digit_char_def)

lemma ParseUint_loop_snoc:
  "ParseUint_loop s0 n (cs @ [c]) =
     (case ParseUint_loop s0 n cs of Inl e \<Rightarrow> Inl e | Inr m \<Rightarrow> ParseUint_loop s0 m [c])"
  by (induction cs arbitrary: n) (simp_all add: Let_def)

lemma ParseUint_loop_decimal:
  "n < 2 ^ 64 \<Longrightarrow> ParseUint_loop s0 0 (decimal n) = Inr n"
proof (induction n rule: decimal.induct)
  case (1 n)
  show ?case
  proof (cases "n < 10")
    case True
    then show ?thesis
      by (subst decimal.simps) (simp add: is_digit_digit_char val_digit_char cutoff_def maxUint64_def Let_def)
  next
    case False
    have q: "n div 10 < 2 ^ 64" using "1.prems" by simp
    have c: "n div 10 < cutoff" using "1.prems" by (simp add: cutoff_def maxUint64_def)
    have r: "n mod 10 < 10" by simp
    have e: "n div 10 * 10 + n mod 10 = n" by simp
    from False "1.IH" q have ih: "ParseUint_loop s0 0 (decimal (n div 10)) = Inr (n div 10)" by simp
    show ?thesis
      using False "1.prems" c e
      by (subst decimal.simps) (simp add: ParseUint_loop_snoc ih is_digit_digit_char val_digit_char maxUint64_def r Let_def)
  qed
qed

lemma decimal_not_Nil: "decimal n \<noteq> []"
  by (subst decimal.simps) simp

lemma hd_decimal_digit: "is_digit (hd (decimal n))"
proof (induction n rule: decimal.induct)
  case (1 n)
  show ?case
  proof (cases "n < 10")
    case True then show ?thesis by (subst decimal.simps) (simp add: is_digit_digit_char)
  next
    case False
    with "1.IH" show ?thesis by (subst decimal.simps) (simp add: decimal_not_Nil)
  qed
qed

lemma ParseInt_Sprint_int:
  assumes "0 \<le> i" "i < 2 ^ 63"
  shows "ParseInt (Sprint_int i) = Inr i"
proof -
  obtain c cs where d: "decimal (nat i) = c # cs"
    using decimal_not_Nil [of "nat i"] by (cases "decimal (nat i)") auto
  have "is_digit c" using hd_decimal_digit [of "nat i"] d by simp
  then have ns: "c \<noteq> CHR ''+''" "c \<noteq> CHR ''-''" by (auto simp: is_digit_def)
  have lt: "nat i < 2 ^ 64" "nat i < 2 ^ 63" using assms by (auto simp: nat_less_iff)
  have "ParseUint (c # cs) = Inr (nat i)"
    using ParseUint_loop_decimal [OF lt(1), of "c # cs"] d by (simp add: ParseUint_def)
  then show ?thesis
    using assms ns d lt by (simp add: ParseInt_def Sprint_int_def)
qed

lemma ParseInt_Sprint_pid:
  fixes p :: go_int
  assumes "0 \<le> sint p"
  shows "ParseInt (Sprint_int (sint p)) = Inr (sint p)"
proof -
  have "sint p < 2 ^ 63"
    using sint_lt [of p] by simp
  with assms show ?thesis by (rule ParseInt_Sprint_int)
qed

section \<open>The Identity Store round trip\<close>

text \<open>
  Claim C7. For every non-negative process id, \<open>readPID\<close> after a \<open>writePID\<close>
  that succeeded returns exactly that id; and \<open>readPID\<close> with no pid file fails
  with the error of the read, "failed to read pid file" around the missing file,
  which is never the error "failed to parse pid number" of the integer parser.
\<close>

theorem identity_store_roundtrip:
  "(0 \<le> sint (Getpid s) \<and> writePID s w = (None, w') \<longrightarrow> readPID w' = Inr (Getpid s)) \<and>
   (files w pidPath = None \<longrightarrow>
      readPID w = Inl (Wrap ''failed to read pid file'' (NotExist pidPath)) \<and>
      (\<forall>e. readPID w \<noteq> Inl (Wrap ''failed to parse pid number'' e)))"
proof (intro conjI impI)
  assume a: "0 \<le> sint (Getpid s) \<and> writePID s w = (None, w')"
  then have f: "files w' pidPath = Some (Sprint_int (sint (Getpid s)))"
    by (auto simp: writePID_def Let_def split: option.splits)
  from a have "ParseInt (Sprint_int (sint (Getpid s))) = Inr (sint (Getpid s))"
    by (simp add: ParseInt_Sprint_pid)
  with f show "readPID w' = Inr (Getpid s)"
    by (simp add: readPID_def)
next
  assume "files w pidPath = None"
  then show "readPID w = Inl (Wrap ''failed to read pid file'' (NotExist pidPath))"
    by (simp add: readPID_def)
next
  assume "files w pidPath = None"
  then show "\<forall>e. readPID w \<noteq> Inl (Wrap ''failed to parse pid number'' e)"
    by (simp add: readPID_def)
qed

theorem identity_store_roundtrip_witness:
  "0 \<le> sint (Getpid sys_ok) \<and>
   writePID sys_ok world_host = (None, world_host\<lparr>files := [pidPath \<mapsto> ''4242'']\<rparr>) \<and>
   readPID (world_host\<lparr>files := [pidPath \<mapsto> ''4242'']\<rparr>) = Inr 4242 \<and>
   files world_host pidPath = None \<and>
   readPID world_host = Inl (Wrap ''failed to read pid file'' (NotExist ''.rebirth/server.pid''))"
proof -
  have d: "decimal 4242 = ''4242''"
    by (simp add: decimal.simps digit_char_def char_of_def bit_Suc_0_iff)
  have h1: "0 \<le> sint (Getpid sys_ok)"
    by (simp add: sys_ok_def)
  have h2: "writePID sys_ok world_host = (None, world_host\<lparr>files := [pidPath \<mapsto> ''4242'']\<rparr>)"
    by (simp add: writePID_def sys_ok_def world_host_def Sprint_int_def d)
  have h3: "files world_host pidPath = None"
    by (simp add: world_host_def)
  have p: "pidPath = ''.rebirth/server.pid''"
    by (simp add: pidPath_def configDir_def)
  show ?thesis
    using identity_store_roundtrip [of sys_ok world_host "world_host\<lparr>files := [pidPath \<mapsto> ''4242'']\<rparr>"] h1 h2 h3
    by (simp add: sys_ok_def p)
qed

section \<open>Phases\<close>

lemma hook_step:
  "build r = Some b \<Longrightarrow>
   runBuildHookCommandInGoContext s r c (emit (announce c) w) =
     (map_option (Errorf (''failed to run command '' @ c)) (hookFails s b (trace w) c),
      w\<lparr>trace := trace w @ hookEvents s b [c]\<rparr>)"
  by (cases "hookFails s b (trace w) c")
     (simp_all add: runBuildHookCommandInGoContext_def RunInGoContext_def emit_def
        hookFails_def hookCommand_def)

lemma runCommands_all_succeed:
  "build r = Some b \<Longrightarrow>
   (\<And>j. j < length cs \<Longrightarrow> hookFails s b (trace w @ hookEvents s b (take j cs)) (cs ! j) = None) \<Longrightarrow>
   runCommands s r msg cs w = (None, w\<lparr>trace := trace w @ hookEvents s b cs\<rparr>)"
proof (induction cs arbitrary: w)
  case Nil
  then show ?case by simp
next
  case (Cons c cs)
  let ?w1 = "w\<lparr>trace := trace w @ hookEvents s b [c]\<rparr>"
  have first: "hookFails s b (trace w) c = None"
    using Cons.prems(2) [of 0] by simp
  have rest: "hookFails s b (trace ?w1 @ hookEvents s b (take j cs)) (cs ! j) = None"
    if "j < length cs" for j
    using Cons.prems(2) [of "Suc j"] that by simp
  have "runCommands s r msg cs ?w1 = (None, ?w1\<lparr>trace := trace ?w1 @ hookEvents s b cs\<rparr>)"
    using Cons.IH [OF Cons.prems(1), of ?w1] rest by blast
  then show ?case
    using first hook_step [OF Cons.prems(1), of s c w]
    by simp
qed

lemma runCommands_first_failure:
  "build r = Some b \<Longrightarrow> k < length cs \<Longrightarrow>
   (\<And>j. j < k \<Longrightarrow> hookFails s b (trace w @ hookEvents s b (take j cs)) (cs ! j) = None) \<Longrightarrow>
   hookFails s b (trace w @ hookEvents s b (take k cs)) (cs ! k) = Some e \<Longrightarrow>
   runCommands s r msg cs w =
     (Some (Errorf msg (Errorf (''failed to run command '' @ cs ! k) e)),
      w\<lparr>trace := trace w @ hookEvents s b (take (Suc k) cs)\<rparr>)"
proof (induction cs arbitrary: w k)
  case Nil
  then show ?case by simp
next
  case (Cons c cs)
  let ?w1 = "w\<lparr>trace := trace w @ hookEvents s b [c]\<rparr>"
  show ?case
  proof (cases k)
    case 0
    with Cons.prems(4) have "hookFails s b (trace w) c = Some e" by simp
    then show ?thesis
      using 0 hook_step [OF Cons.prems(1), of s c w]
      by simp
  next
    case (Suc k')
    have first: "hookFails s b (trace w) c = None"
      using Cons.prems(3) [of 0] Suc by simp
    have k': "k' < length cs" using Cons.prems(2) Suc by simp
    have rest: "hookFails s b (trace ?w1 @ hookEvents s b (take j cs)) (cs ! j) = None"
      if "j < k'" for j
      using Cons.prems(3) [of "Suc j"] that Suc by simp
    have fail: "hookFails s b (trace ?w1 @ hookEvents s b (take k' cs)) (cs ! k') = Some e"
      using Cons.prems(4) Suc by simp
    have "runCommands s r msg cs ?w1 =
        (Some (Errorf msg (Errorf (''failed to run command '' @ cs ! k') e)),
         ?w1\<lparr>trace := trace ?w1 @ hookEvents s b (take (Suc k') cs)\<rparr>)"
      using Cons.IH [OF Cons.prems(1) k', of ?w1 ] rest fail by blast
    then show ?thesis
      using first Suc hook_step [OF Cons.prems(1), of s c w]
      by simp
  qed
qed
text \<open>
  Claim C8. Each of the three phase runners is the loop \<open>runCommands\<close> over its
  list. The loop runs the commands in list order: when every command succeeds
  the phase succeeds and the trace holds the events of the whole list in order;
  when the commands before the \<open>k\<close>-th succeed and the \<open>k\<close>-th fails, the trace
  holds the events of the first \<open>k + 1\<close> commands and of no later one, and the
  result of the phase is the error of the \<open>k\<close>-th command, wrapped.
\<close>

theorem build_phase_fail_fast:
  "build r = Some b \<longrightarrow>
     runBuildInitCommands s r w = runCommands s r ''failed to run command in build.init'' (Init b) w \<and>
     runBuildBeforeCommands s r w = runCommands s r ''failed to run command in build.before'' (Before b) w \<and>
     runBuildAfterCommands s r w = runCommands s r ''failed to run command in build.after'' (After b) w \<and>
     ((\<forall>j<length cs. hookFails s b (trace w @ hookEvents s b (take j cs)) (cs ! j) = None) \<longrightarrow>
        runCommands s r msg cs w = (None, w\<lparr>trace := trace w @ hookEvents s b cs\<rparr>)) \<and>
     (k < length cs \<and>
      (\<forall>j<k. hookFails s b (trace w @ hookEvents s b (take j cs)) (cs ! j) = None) \<and>
      hookFails s b (trace w @ hookEvents s b (take k cs)) (cs ! k) = Some e \<longrightarrow>
        runCommands s r msg cs w =
          (Some (Errorf msg (Errorf (''failed to run command '' @ cs ! k) e)),
           w\<lparr>trace := trace w @ hookEvents s b (take (Suc k) cs)\<rparr>))"
proof (intro impI conjI)
  assume b: "build r = Some b"
  show "runBuildInitCommands s r w = runCommands s r ''failed to run command in build.init'' (Init b) w"
    using b by (simp add: runBuildInitCommands_def)
  show "runBuildBeforeCommands s r w = runCommands s r ''failed to run command in build.before'' (Before b) w"
    using b by (simp add: runBuildBeforeCommands_def)
  show "runBuildAfterCommands s r w = runCommands s r ''failed to run command in build.after'' (After b) w"
    using b by (simp add: runBuildAfterCommands_def)
  show "runCommands s r msg cs w = (None, w\<lparr>trace := trace w @ hookEvents s b cs\<rparr>)"
    if "\<forall>j<length cs. hookFails s b (trace w @ hookEvents s b (take j cs)) (cs ! j) = None"
    using runCommands_all_succeed [OF b, of cs s w msg] that by blast
  show "runCommands s r msg cs w =
          (Some (Errorf msg (Errorf (''failed to run command '' @ cs ! k) e)),
           w\<lparr>trace := trace w @ hookEvents s b (take (Suc k) cs)\<rparr>)"
    if "k < length cs \<and>
      (\<forall>j<k. hookFails s b (trace w @ hookEvents s b (take j cs)) (cs ! j) = None) \<and>
      hookFails s b (trace w @ hookEvents s b (take k cs)) (cs ! k) = Some e"
    using runCommands_first_failure [OF b, of k cs s w e msg] that by blast
qed

theorem build_phase_fail_fast_witness:
  "build reloader_failing = Some build_failing \<and>
   runBuildInitCommands sys_ok reloader_failing world_host =
     (None, world_host\<lparr>trace := hookEvents sys_ok build_failing [''true'', ''false'', ''mod download'']\<rparr>) \<and>
   runBuildInitCommands sys_failing reloader_failing world_host =
     (Some (Wrap ''failed to run command in build.init''
        (Wrap ''failed to run command false'' (External ''exit status 1''))),
      world_host\<lparr>trace := hookEvents sys_failing build_failing [''true'', ''false'']\<rparr>)"
proof -
  let ?cs = "[''true'', ''false'', ''mod download'']"
  let ?msg = "''failed to run command in build.init''"
  have b: "build reloader_failing = Some build_failing"
    by (simp add: reloader_failing_def)
  have i: "Init build_failing = ?cs"
    by (simp add: build_failing_def)
  have ok: "\<forall>j<length ?cs.
      hookFails sys_ok build_failing (trace world_host @ hookEvents sys_ok build_failing (take j ?cs)) (?cs ! j) = None"
    by (simp add: hookFails_def sys_ok_def)
  have pre: "\<forall>j<1::nat.
      hookFails sys_failing build_failing (trace world_host @ hookEvents sys_failing build_failing (take j ?cs)) (?cs ! j) = None"
    by (simp add: hookFails_def sys_failing_def sys_ok_def)
  have bad: "hookFails sys_failing build_failing
      (trace world_host @ hookEvents sys_failing build_failing (take 1 ?cs)) (?cs ! 1) = Some (External ''exit status 1'')"
    by (simp add: hookFails_def sys_failing_def sys_ok_def)
  have t: "trace world_host = []"
    by (simp add: world_host_def)
  show ?thesis
    using build_phase_fail_fast [of reloader_failing build_failing sys_ok world_host ?cs ?msg 0 "External []"]
      build_phase_fail_fast [of reloader_failing build_failing sys_failing world_host ?cs ?msg 1 "External ''exit status 1''"]
      b i ok pre bad
    by (simp add: t)
qed

section \<open>Stopping the current process\<close>

text \<open>
  Claim C10. \<open>stopCurrentProcess\<close> with no tracked process returns success and
  changes nothing. With a tracked process whose stop fails it returns the
  wrapped error and the reloader is unchanged, the process still tracked. With a
  tracked process whose stop succeeds it clears the record, and stopping again
  at once returns success and changes nothing. The record of a tracked process
  is cleared only by a call that returns success.
\<close>

theorem stopCurrentProcess_atomic_idempotent:
  "(cmd r = None \<longrightarrow> stopCurrentProcess s r w = (None, r, w)) \<and>
   (cmd r = Some c \<and> Stop_fails s (trace w) c = Some e \<longrightarrow>
      stopCurrentProcess s r w =
        (Some (Errorf ''failed to stop process'' e), r, emit (CommandStop c) w)) \<and>
   (cmd r = Some c \<and> Stop_fails s (trace w) c = None \<longrightarrow>
      stopCurrentProcess s r w = (None, r\<lparr>cmd := None\<rparr>, emit (CommandStop c) w) \<and>
      stopCurrentProcess s (r\<lparr>cmd := None\<rparr>) (emit (CommandStop c) w) =
        (None, r\<lparr>cmd := None\<rparr>, emit (CommandStop c) w)) \<and>
   (cmd r \<noteq> None \<and> stopCurrentProcess s r w = (res, r', w') \<and> cmd r' = None \<longrightarrow> res = None)"
  by (auto simp: stopCurrentProcess_def Stop_def split: option.splits)

theorem stopCurrentProcess_atomic_idempotent_witness:
  "stopCurrentProcess sys_ok reloader_local world_host = (None, reloader_local, world_host) \<and>
   stopCurrentProcess sys_stop_fails (reloader_local\<lparr>cmd := Some child\<rparr>) world_host =
     (Some (Wrap ''failed to stop process'' (External ''operation not permitted'')),
      reloader_local\<lparr>cmd := Some child\<rparr>, emit (CommandStop child) world_host) \<and>
   stopCurrentProcess sys_ok (reloader_local\<lparr>cmd := Some child\<rparr>) world_host =
     (None, reloader_local, emit (CommandStop child) world_host) \<and>
   stopCurrentProcess sys_ok reloader_local (emit (CommandStop child) world_host) =
     (None, reloader_local, emit (CommandStop child) world_host)"
proof -
  let ?r = "reloader_local\<lparr>cmd := Some child\<rparr>"
  have n: "cmd reloader_local = None" and c: "cmd ?r = Some child"
    and u: "?r\<lparr>cmd := None\<rparr> = reloader_local"
    by (simp_all add: reloader_local_def)
  have f: "Stop_fails sys_stop_fails (trace world_host) child = Some (External ''operation not permitted'')"
    by (simp add: sys_stop_fails_def sys_ok_def)
  have g: "Stop_fails sys_ok (trace world_host) child = None"
    by (simp add: sys_ok_def)
  have k: "cmd ?r \<noteq> None \<and>
      stopCurrentProcess sys_ok ?r world_host = (None, reloader_local, emit (CommandStop child) world_host) \<and>
      cmd reloader_local = None"
    using c g n u by (simp add: stopCurrentProcess_def Stop_def)
  show ?thesis
    using stopCurrentProcess_atomic_idempotent [of reloader_local sys_ok world_host child "External []" None reloader_local world_host]
      stopCurrentProcess_atomic_idempotent [of ?r sys_stop_fails world_host child "External ''operation not permitted''" None ?r world_host]
      stopCurrentProcess_atomic_idempotent [of ?r sys_ok world_host child "External []" None reloader_local "emit (CommandStop child) world_host"]
      n c u f g k
    by simp
qed
section \<open>Topology\<close>

text \<open>
  Claim C1. The mode is a function of the two booleans alone: without a remote
  target it is \<open>Local\<close> whatever the marker, with a remote target and the
  marker it is \<open>InsideRemote\<close>, with a remote target and no marker it is
  \<open>HostDelegating\<close>. \<open>Run\<close> selects its arm by this mode, computed from
  \<open>isUsedDocker\<close> and \<open>isOnDockerContainer\<close>: the arm of the disabled reload
  in \<open>InsideRemote\<close>, the cross-building arm in \<open>HostDelegating\<close>, the localhost
  arm in \<open>Local\<close>.
\<close>

theorem topology_mode_selects_Run_arm:
  "topologyMode False marker = Local \<and>
   topologyMode True True = InsideRemote \<and>
   topologyMode True False = HostDelegating \<and>
   Run s r w =
     (case topologyMode (isUsedDocker r) (isOnDockerContainer w) of
        Local \<Rightarrow> Run_localhost s r w
      | HostDelegating \<Rightarrow> Run_crossBuild s r w
      | InsideRemote \<Rightarrow> Run_reloadDisabled s r w)"
  by (simp add: topologyMode_def Run_def IsEnabledReload_def)

theorem topology_mode_selects_Run_arm_witness:
  "Run sys_ok reloader_local world_host = Run_localhost sys_ok reloader_local world_host \<and>
   Run sys_ok reloader_local world_container = Run_localhost sys_ok reloader_local world_container \<and>
   Run sys_ok reloader_docker world_host = Run_crossBuild sys_ok reloader_docker world_host \<and>
   Run sys_ok reloader_docker world_container = Run_reloadDisabled sys_ok reloader_docker world_container"
proof -
  have u: "\<not> isUsedDocker reloader_local" "isUsedDocker reloader_docker"
    by (simp_all add: isUsedDocker_def reloader_local_def reloader_docker_def)
  have m: "\<not> isOnDockerContainer world_host" "isOnDockerContainer world_container"
    by (simp_all add: isOnDockerContainer_def world_host_def world_container_def)
  show ?thesis
    using topology_mode_selects_Run_arm [of False sys_ok reloader_local world_host]
      topology_mode_selects_Run_arm [of True sys_ok reloader_local world_container]
      topology_mode_selects_Run_arm [of True sys_ok reloader_docker world_host]
      topology_mode_selects_Run_arm [of True sys_ok reloader_docker world_container]
      u m
    by simp
qed

section \<open>Builds and restarts\<close>

lemma runCommands_success:
  "build r = Some b \<Longrightarrow> runCommands s r msg cs w = (None, w') \<Longrightarrow>
   w' = w\<lparr>trace := trace w @ hookEvents s b cs\<rparr>"
proof (induction cs arbitrary: w)
  case Nil
  then show ?case by simp
next
  case (Cons c cs)
  let ?w1 = "w\<lparr>trace := trace w @ hookEvents s b [c]\<rparr>"
  show ?case
  proof (cases "hookFails s b (trace w) c")
    case None
    then have "runCommands s r msg cs ?w1 = (None, w')"
      using Cons.prems hook_step [OF Cons.prems(1), of s c w] by simp
    from Cons.IH [OF Cons.prems(1) this] show ?thesis by simp
  next
    case (Some e)
    then show ?thesis
      using Cons.prems hook_step [OF Cons.prems(1), of s c w] by simp
  qed
qed

lemma runCommands_prefix:
  "build r = Some b \<Longrightarrow>
   \<exists>n\<le>length cs. snd (runCommands s r msg cs w) = w\<lparr>trace := trace w @ hookEvents s b (take n cs)\<rparr>"
proof (induction cs arbitrary: w)
  case Nil
  then show ?case by simp
next
  case (Cons c cs)
  let ?w1 = "w\<lparr>trace := trace w @ hookEvents s b [c]\<rparr>"
  show ?case
  proof (cases "hookFails s b (trace w) c")
    case None
    from Cons.IH [OF Cons.prems, of ?w1] obtain n where
      n: "n \<le> length cs"
      "snd (runCommands s r msg cs ?w1) = ?w1\<lparr>trace := trace ?w1 @ hookEvents s b (take n cs)\<rparr>"
      by blast
    have "snd (runCommands s r msg (c # cs) w) =
        w\<lparr>trace := trace w @ hookEvents s b (take (Suc n) (c # cs))\<rparr>"
      using None n(2) hook_step [OF Cons.prems, of s c w] by simp
    with n(1) show ?thesis
      by (intro exI [of _ "Suc n"]) simp
  next
    case (Some e)
    have "snd (runCommands s r msg (c # cs) w) =
        w\<lparr>trace := trace w @ hookEvents s b (take (Suc 0) (c # cs))\<rparr>"
      using Some hook_step [OF Cons.prems, of s c w] by simp
    then show ?thesis
      by (intro exI [of _ "Suc 0"]) simp
  qed
qed

lemma processEvent_hookEvents: "filter processEvent (hookEvents s b cs) = []"
  by (induction cs) (simp_all add: announce_def)

lemma buildToolEvent_restartEvents: "filter buildToolEvent (restartEvents s r) = []"
  by (simp add: restartEvents_def stopEvents_def split: option.splits)

lemma runCommands_quiet:
  assumes "build r = Some b"
  shows "\<exists>evs. snd (runCommands s r msg cs w) = w\<lparr>trace := trace w @ evs\<rparr> \<and>
               filter processEvent evs = []"
proof -
  from runCommands_prefix [OF assms, of cs s msg w] obtain n where
    "snd (runCommands s r msg cs w) = w\<lparr>trace := trace w @ hookEvents s b (take n cs)\<rparr>"
    by blast
  then show ?thesis
    using processEvent_hookEvents by blast
qed

lemma reload_eq:
  "reload s r w =
     (case cmd r of
        None \<Rightarrow> (None, r\<lparr>cmd := Some (newChild s r)\<rparr>, w\<lparr>trace := trace w @ restartEvents s r\<rparr>)
      | Some c \<Rightarrow>
          (case Stop_fails s (trace w @ [Print ''Restarting...'']) c of
             Some e \<Rightarrow>
               (Some (Errorf ''failed to stop current process'' (Errorf ''failed to stop process'' e)),
                r, w\<lparr>trace := trace w @ [Print ''Restarting...'', CommandStop c]\<rparr>)
           | None \<Rightarrow>
               (None, r\<lparr>cmd := Some (newChild s r)\<rparr>, w\<lparr>trace := trace w @ restartEvents s r\<rparr>)))"
  by (simp add: reload_def stopCurrentProcess_def Stop_def emit_def RunAsync_def newChild_def
      restartEvents_def stopEvents_def Let_def split: option.splits)

lemma reload_success:
  "reload s r w = (None, r', w') \<Longrightarrow>
   r' = r\<lparr>cmd := Some (newChild s r)\<rparr> \<and> w' = w\<lparr>trace := trace w @ restartEvents s r\<rparr>"
  by (auto simp: reload_eq split: option.splits)

lemma xbuild_success:
  assumes b: "build r = Some b" and x: "xbuild s r (buildPath s) ''.'' w = (None, w')"
  shows "w' = w\<lparr>trace := trace w @ buildEvents s b (crossTarget r w)\<rparr>"
proof -
  let ?w0 = "emit (Print ''Building....'') w"
  obtain w1 where 1: "runBuildBeforeCommands s r ?w0 = (None, w1)"
    using x by (auto simp: xbuild_def split: prod.splits option.splits)
  then have w1: "w1 = ?w0\<lparr>trace := trace ?w0 @ hookEvents s b (Before b)\<rparr>"
    using b runCommands_success [OF b] by (simp add: runBuildBeforeCommands_def)
  then have m: "isOnDockerContainer w1 = isOnDockerContainer w"
    by (simp add: isOnDockerContainer_def emit_def)
  let ?g = "compileCommand s b (crossTarget r w)"
  have g: "(let gocmd = GoAddEnv (buildEnv s b) NewGoCommand in
            if isUsedDocker r \<and> \<not> isOnDockerContainer w1
            then (case host r of None \<Rightarrow> gocmd | Some h \<Rightarrow> EnableCrossBuild (Docker h) gocmd)
            else gocmd) = ?g"
    by (auto simp: m compileCommand_def crossTarget_def isUsedDocker_def Let_def split: option.splits)
  let ?w2 = "emit (GoBuild ?g [''-o'', buildPath s, ''.'']) w1"
  have 2: "runBuildAfterCommands s r ?w2 = (None, w')"
    using x 1 b g by (auto simp: xbuild_def Build_go_def Let_def split: prod.splits option.splits)
  then have "w' = ?w2\<lparr>trace := trace ?w2 @ hookEvents s b (After b)\<rparr>"
    using b runCommands_success [OF b] by (simp add: runBuildAfterCommands_def)
  then show ?thesis
    by (simp add: w1 emit_def buildEvents_def)
qed

lemma xbuild_quiet:
  "\<exists>evs. snd (xbuild s r target source w) = w\<lparr>trace := trace w @ evs\<rparr> \<and>
         filter processEvent evs = []"
proof (cases "build r")
  case None
  then have "snd (xbuild s r target source w) = w\<lparr>trace := trace w @ [Print ''Building....'']\<rparr>"
    by (simp add: xbuild_def runBuildBeforeCommands_def emit_def)
  then show ?thesis
    by (intro exI [of _ "[Print ''Building....'']"]) simp
next
  case (Some b)
  let ?w0 = "emit (Print ''Building....'') w"
  obtain e1 w1 where 1: "runBuildBeforeCommands s r ?w0 = (e1, w1)"
    by (cases "runBuildBeforeCommands s r ?w0")
  obtain ev1 where ev1: "w1 = ?w0\<lparr>trace := trace ?w0 @ ev1\<rparr>" "filter processEvent ev1 = []"
    using runCommands_quiet [OF Some, of s "''failed to run command in build.before''" "Before b" ?w0] 1 Some
    by (auto simp: runBuildBeforeCommands_def)
  show ?thesis
  proof (cases e1)
    case (Some e)
    then have "snd (xbuild s r target source w) = w\<lparr>trace := trace w @ Print ''Building....'' # ev1\<rparr>"
      using 1 ev1 by (simp add: xbuild_def emit_def)
    with ev1(2) show ?thesis
      by (intro exI [of _ "Print ''Building....'' # ev1"]) simp
  next
    case None
    obtain g where g: "(let gocmd = (case build r of None \<Rightarrow> NewGoCommand
                                    | Some b \<Rightarrow> GoAddEnv (buildEnv s b) NewGoCommand);
               gocmd = (if isUsedDocker r \<and> \<not> isOnDockerContainer w1
                        then (case host r of None \<Rightarrow> gocmd | Some h \<Rightarrow> EnableCrossBuild (Docker h) gocmd)
                        else gocmd)
           in gocmd) = g"
      by simp
    let ?w2 = "emit (GoBuild g [''-o'', target, source]) w1"
    obtain e3 w3 where 3: "runBuildAfterCommands s r ?w2 = (e3, w3)"
      by (cases "runBuildAfterCommands s r ?w2")
    obtain ev3 where ev3: "w3 = ?w2\<lparr>trace := trace ?w2 @ ev3\<rparr>" "filter processEvent ev3 = []"
      using runCommands_quiet [OF \<open>build r = Some b\<close>, of s "''failed to run command in build.after''" "After b" ?w2] 3
        \<open>build r = Some b\<close>
      by (auto simp: runBuildAfterCommands_def)
    have "snd (xbuild s r target source w) = ?w2 \<or> snd (xbuild s r target source w) = w3"
      using 1 None g 3
      by (auto simp: xbuild_def Build_go_def Let_def split: option.splits prod.splits)
    then show ?thesis
    proof
      assume "snd (xbuild s r target source w) = ?w2"
      then have "snd (xbuild s r target source w) =
          w\<lparr>trace := trace w @ (Print ''Building....'' # ev1 @ [GoBuild g [''-o'', target, source]])\<rparr>"
        using ev1 by (simp add: emit_def)
      with ev1(2) show ?thesis
        by (intro exI [of _ "Print ''Building....'' # ev1 @ [GoBuild g [''-o'', target, source]]"]) simp
    next
      assume "snd (xbuild s r target source w) = w3"
      then have "snd (xbuild s r target source w) =
          w\<lparr>trace := trace w @ (Print ''Building....'' # ev1 @ [GoBuild g [''-o'', target, source]] @ ev3)\<rparr>"
        using ev1 ev3 by (simp add: emit_def)
      with ev1(2) ev3(2) show ?thesis
        by (intro exI [of _ "Print ''Building....'' # ev1 @ [GoBuild g [''-o'', target, source]] @ ev3"]) simp
    qed
  qed
qed

section \<open>Shutdown\<close>

text \<open>
  Claim C6, as stated, fails: in the Local topology \<open>Close\<close> returns at its
  first test and the tracked child is neither stopped nor forgotten.
\<close>

theorem Close_local_keeps_child_counterexample:
  "\<not> isUsedDocker reloader_local_child \<and>
   cmd reloader_local_child = Some child \<and>
   Close sys_ok reloader_local_child world_host = (None, reloader_local_child, world_host) \<and>
   trace world_host = []"
  by (simp add: Close_def isUsedDocker_def reloader_local_child_def world_host_def)

text \<open>
  Claim C6, amended. Without a remote target \<open>Close\<close> returns success and
  changes nothing, a tracked child included. Inside the remote target, with a
  tracked child whose stop succeeds, \<open>Close\<close> stops that child and clears the
  record, and a second \<open>Close\<close> stops nothing: it prints its line and returns
  success. On the delegating host \<open>Close\<close> reads the peer's process id and
  runs exactly one command through the gateway, \<^verbatim>\<open>kill -QUIT\<close> of that id in the
  configured container, and leaves the reloader, its child record included, as
  it was; when the pid cannot be read it returns the error and runs nothing.
\<close>

theorem Close_by_topology:
  "(\<not> isUsedDocker r \<longrightarrow> Close s r w = (None, r, w)) \<and>
   (isUsedDocker r \<and> isOnDockerContainer w \<and> cmd r = Some c \<and>
    Stop_fails s (trace w @ [Print ''stop current process...'']) c = None \<longrightarrow>
      Close s r w =
        (None, r\<lparr>cmd := None\<rparr>, w\<lparr>trace := trace w @ [Print ''stop current process...'', CommandStop c]\<rparr>) \<and>
      Close s (r\<lparr>cmd := None\<rparr>) (w\<lparr>trace := trace w @ [Print ''stop current process...'', CommandStop c]\<rparr>) =
        (None, r\<lparr>cmd := None\<rparr>,
         w\<lparr>trace := trace w @
           [Print ''stop current process...'', CommandStop c, Print ''stop current process...'']\<rparr>)) \<and>
   (isUsedDocker r \<and> \<not> isOnDockerContainer w \<and> host r = Some h \<and> readPID w = Inr pid \<longrightarrow>
      Close s r w =
        (map_option (Errorf ''failed to exec command on docker container'')
           (DockerCommand_fails s (trace w @ [Print ''stop hot reloader on container...''])
              (Docker h) [''kill'', ''-QUIT'', Sprint_int (sint pid)]),
         r,
         w\<lparr>trace := trace w @
           [Print ''stop hot reloader on container...'',
            DockerRun (Docker h) [''kill'', ''-QUIT'', Sprint_int (sint pid)]]\<rparr>)) \<and>
   (isUsedDocker r \<and> \<not> isOnDockerContainer w \<and> readPID w = Inl e \<longrightarrow>
      Close s r w = (Some (Errorf ''failed to read pid'' e), r, w))"
proof -
  have local: "\<not> isUsedDocker r \<longrightarrow> Close s r w = (None, r, w)"
    by (simp add: Close_def)
  have inside: "isUsedDocker r \<and> isOnDockerContainer w \<and> cmd r = Some c \<and>
    Stop_fails s (trace w @ [Print ''stop current process...'']) c = None \<longrightarrow>
      Close s r w =
        (None, r\<lparr>cmd := None\<rparr>, w\<lparr>trace := trace w @ [Print ''stop current process...'', CommandStop c]\<rparr>) \<and>
      Close s (r\<lparr>cmd := None\<rparr>) (w\<lparr>trace := trace w @ [Print ''stop current process...'', CommandStop c]\<rparr>) =
        (None, r\<lparr>cmd := None\<rparr>,
         w\<lparr>trace := trace w @
           [Print ''stop current process...'', CommandStop c, Print ''stop current process...'']\<rparr>)"
  proof
    assume a: "isUsedDocker r \<and> isOnDockerContainer w \<and> cmd r = Some c \<and>
      Stop_fails s (trace w @ [Print ''stop current process...'']) c = None"
    let ?w' = "w\<lparr>trace := trace w @ [Print ''stop current process...'', CommandStop c]\<rparr>"
    have u: "isUsedDocker (r\<lparr>cmd := None\<rparr>)" "isOnDockerContainer ?w'"
      using a by (simp_all add: isUsedDocker_def isOnDockerContainer_def)
    show "Close s r w = (None, r\<lparr>cmd := None\<rparr>, ?w') \<and>
        Close s (r\<lparr>cmd := None\<rparr>) ?w' =
          (None, r\<lparr>cmd := None\<rparr>,
           w\<lparr>trace := trace w @
             [Print ''stop current process...'', CommandStop c, Print ''stop current process...'']\<rparr>)"
      using a u by (simp add: Close_def stopCurrentProcess_def Stop_def emit_def)
  qed
  have delegating: "isUsedDocker r \<and> \<not> isOnDockerContainer w \<and> host r = Some h \<and> readPID w = Inr pid \<longrightarrow>
      Close s r w =
        (map_option (Errorf ''failed to exec command on docker container'')
           (DockerCommand_fails s (trace w @ [Print ''stop hot reloader on container...''])
              (Docker h) [''kill'', ''-QUIT'', Sprint_int (sint pid)]),
         r,
         w\<lparr>trace := trace w @
           [Print ''stop hot reloader on container...'',
            DockerRun (Docker h) [''kill'', ''-QUIT'', Sprint_int (sint pid)]]\<rparr>)"
    by (simp add: Close_def DockerCommand_Run_def emit_def split: option.splits)
  have unread: "isUsedDocker r \<and> \<not> isOnDockerContainer w \<and> readPID w = Inl e \<longrightarrow>
      Close s r w = (Some (Errorf ''failed to read pid'' e), r, w)"
    by (simp add: Close_def)
  show ?thesis
    by (intro conjI local inside delegating unread)
qed

theorem Close_by_topology_witness:
  "Close sys_ok reloader_local_child world_host = (None, reloader_local_child, world_host) \<and>
   Close sys_ok reloader_docker_child world_container =
     (None, reloader_docker,
      world_container\<lparr>trace := [Print ''stop current process...'', CommandStop child]\<rparr>) \<and>
   Close sys_ok reloader_docker
       (world_container\<lparr>trace := [Print ''stop current process...'', CommandStop child]\<rparr>) =
     (None, reloader_docker,
      world_container\<lparr>trace :=
        [Print ''stop current process...'', CommandStop child, Print ''stop current process...'']\<rparr>) \<and>
   Close sys_ok reloader_docker_child world_host_pid =
     (None, reloader_docker_child,
      world_host_pid\<lparr>trace :=
        [Print ''stop hot reloader on container...'', DockerRun ''web'' [''kill'', ''-QUIT'', ''4242'']]\<rparr>) \<and>
   Close sys_ok reloader_docker_child world_host =
     (Some (Wrap ''failed to read pid'' (Wrap ''failed to read pid file'' (NotExist ''.rebirth/server.pid''))),
      reloader_docker_child, world_host)"
proof -
  have p: "pidPath = ''.rebirth/server.pid''"
    by (simp add: pidPath_def configDir_def)
  have u: "\<not> isUsedDocker reloader_local_child" "isUsedDocker reloader_docker_child"
    by (simp_all add: isUsedDocker_def reloader_local_child_def reloader_docker_child_def)
  have m: "isOnDockerContainer world_container" "\<not> isOnDockerContainer world_host_pid"
    "\<not> isOnDockerContainer world_host"
    by (simp_all add: isOnDockerContainer_def world_container_def world_host_pid_def world_host_def)
  have c: "cmd reloader_docker_child = Some child"
    "reloader_docker_child\<lparr>cmd := None\<rparr> = reloader_docker"
    "host reloader_docker_child = Some \<lparr>Docker = ''web''\<rparr>"
    by (simp_all add: reloader_docker_child_def reloader_docker_def)
  have f: "Stop_fails sys_ok (trace world_container @ [Print ''stop current process...'']) child = None"
    "DockerCommand_fails sys_ok (trace world_host_pid @ [Print ''stop hot reloader on container...''])
       ''web'' [''kill'', ''-QUIT'', ''4242''] = None"
    by (simp_all add: sys_ok_def)
  have t: "trace world_container = []" "trace world_host_pid = []"
    by (simp_all add: world_container_def world_host_pid_def)
  have d: "Sprint_int 4242 = ''4242''"
    by (simp add: Sprint_int_def decimal.simps digit_char_def char_of_def bit_Suc_0_iff)
  have r1: "readPID world_host_pid = Inr 4242"
    by (simp add: readPID_def world_host_pid_def p ParseInt_def ParseUint_def is_digit_def
        cutoff_def maxUint64_def Let_def)
  have r2: "readPID world_host = Inl (Wrap ''failed to read pid file'' (NotExist ''.rebirth/server.pid''))"
    by (simp add: readPID_def world_host_def p)
  show ?thesis
    using Close_by_topology [of reloader_local_child sys_ok world_host child "\<lparr>Docker = ''web''\<rparr>" 4242 "External []"]
      Close_by_topology [of reloader_docker_child sys_ok world_container child "\<lparr>Docker = ''web''\<rparr>" 4242 "External []"]
      Close_by_topology [of reloader_docker_child sys_ok world_host_pid child "\<lparr>Docker = ''web''\<rparr>" 4242 "External []"]
      Close_by_topology [of reloader_docker_child sys_ok world_host child "\<lparr>Docker = ''web''\<rparr>" 4242
        "Wrap ''failed to read pid file'' (NotExist ''.rebirth/server.pid'')"]
      u m c f r1 r2
    by (simp add: t d)
qed

section \<open>Evaluation of the model on concrete systems\<close>

lemmas model_defs =
  Reload_def xbuild_def sendReloadingSignal_def reload_def stopCurrentProcess_def
  runBuildBeforeCommands_def runBuildAfterCommands_def runBuildInitCommands_def
  runBuildHookCommandInGoContext_def RunInGoContext_def Build_go_def DockerCommand_Run_def
  Stop_def RunAsync_def emit_def NewCommand_def AddEnv_def NewGoCommand_def GoAddEnv_def
  EnableCrossBuild_def SetDir_def buildEnv_def announce_def isUsedDocker_def
  isOnDockerContainer_def readPID_def buildPath_def pidPath_def configDir_def
  ParseInt_def ParseUint_def is_digit_def cutoff_def maxUint64_def Sprint_int_def
  decimal.simps digit_char_def char_of_def bit_Suc_0_iff Let_def

lemmas expected_defs =
  buildEvents_def restartEvents_def stopEvents_def newChild_def compileCommand_def
  hookCommand_def crossTarget_def

lemma readPID_trace: "readPID (w\<lparr>trace := t\<rparr>) = readPID w"
  by (simp add: readPID_def)

lemma readPID_after_xbuild: "readPID (snd (xbuild s r target source w)) = readPID w"
proof -
  obtain evs where "snd (xbuild s r target source w) = w\<lparr>trace := trace w @ evs\<rparr>"
    using xbuild_quiet [of s r target source w] by blast
  then show ?thesis by (simp add: readPID_trace)
qed
section \<open>A reload trigger on the delegating host\<close>

text \<open>
  Claim C4, as stated, fails: on the delegating host \<open>Reload\<close> runs the whole
  build, the cross-compiling compiler included, before it signals the peer.
\<close>

theorem Reload_delegating_rebuilds_counterexample:
  "isUsedDocker reloader_docker \<and> \<not> isOnDockerContainer world_host_pid \<and>
   Reload sys_ok reloader_docker world_host_pid =
     (None, reloader_docker,
      world_host_pid\<lparr>trace :=
        [Print ''Building....'',
         Print (''Running: generate ./...'' @ [CHR 0x0A]),
         GoRunInGoContext \<lparr>goenv = [''CGO_ENABLED=0''], cross = None, dir = None\<rparr> [''generate'', ''./...''],
         GoBuild \<lparr>goenv = [''CGO_ENABLED=0''], cross = Some ''web'', dir = None\<rparr>
           [''-o'', ''/app/.rebirth/program'', ''.''],
         Print (''Running: vet ./...'' @ [CHR 0x0A]),
         GoRunInGoContext \<lparr>goenv = [''CGO_ENABLED=0''], cross = None, dir = None\<rparr> [''vet'', ''./...''],
         DockerRun ''web'' [''kill'', ''-HUP'', ''4242'']]\<rparr>)"
  by (simp add: model_defs sys_ok_def reloader_docker_def world_host_pid_def build_cfg_def)

text \<open>
  Claim C4, amended. On the delegating host (remote target configured, marker
  absent) \<open>Reload\<close> first rebuilds the artifact: the before phase, the compiler
  cross-building for the remote target, the after phase. A build failure is
  returned and nothing is signalled. After a build that succeeded it reads the
  peer's process id from the pid file and runs \<^verbatim>\<open>kill -HUP\<close> of that id in the
  configured container through the gateway, and nothing else; when the pid
  cannot be read it returns that error and runs no gateway command. The
  reloader, its child record included, is unchanged in every case.
\<close>

theorem Reload_delegating:
  "(isUsedDocker r \<and> \<not> isOnDockerContainer w \<and> host r = Some h \<and>
    xbuild s r (buildPath s) ''.'' w = (Some e, w1) \<longrightarrow>
      Reload s r w = (Some (Errorf ''failed to build on host'' e), r, w1)) \<and>
   (isUsedDocker r \<and> \<not> isOnDockerContainer w \<and> host r = Some h \<and>
    xbuild s r (buildPath s) ''.'' w = (None, w1) \<and> build r = Some b \<longrightarrow>
      w1 = w\<lparr>trace := trace w @ buildEvents s b (Some (Docker h))\<rparr>) \<and>
   (isUsedDocker r \<and> \<not> isOnDockerContainer w \<and> host r = Some h \<and>
    xbuild s r (buildPath s) ''.'' w = (None, w1) \<and> readPID w = Inl e' \<longrightarrow>
      Reload s r w =
        (Some (Errorf ''failed to send reloading signal'' (Errorf ''failed to read pid'' e')), r, w1)) \<and>
   (isUsedDocker r \<and> \<not> isOnDockerContainer w \<and> host r = Some h \<and>
    xbuild s r (buildPath s) ''.'' w = (None, w1) \<and> readPID w = Inr pid \<longrightarrow>
      Reload s r w =
        (map_option (\<lambda>x. Errorf ''failed to send reloading signal''
                            (Errorf ''failed to exec command on docker container'' x))
           (DockerCommand_fails s (trace w1) (Docker h) [''kill'', ''-HUP'', Sprint_int (sint pid)]),
         r,
         w1\<lparr>trace := trace w1 @ [DockerRun (Docker h) [''kill'', ''-HUP'', Sprint_int (sint pid)]]\<rparr>))"
proof -
  have failed: "isUsedDocker r \<and> \<not> isOnDockerContainer w \<and> host r = Some h \<and>
    xbuild s r (buildPath s) ''.'' w = (Some e, w1) \<longrightarrow>
      Reload s r w = (Some (Errorf ''failed to build on host'' e), r, w1)"
    by (simp add: Reload_def)
  have built: "isUsedDocker r \<and> \<not> isOnDockerContainer w \<and> host r = Some h \<and>
    xbuild s r (buildPath s) ''.'' w = (None, w1) \<and> build r = Some b \<longrightarrow>
      w1 = w\<lparr>trace := trace w @ buildEvents s b (Some (Docker h))\<rparr>"
  proof
    assume a: "isUsedDocker r \<and> \<not> isOnDockerContainer w \<and> host r = Some h \<and>
      xbuild s r (buildPath s) ''.'' w = (None, w1) \<and> build r = Some b"
    then have "crossTarget r w = Some (Docker h)"
      by (simp add: crossTarget_def)
    with a xbuild_success [of r b s w w1]
    show "w1 = w\<lparr>trace := trace w @ buildEvents s b (Some (Docker h))\<rparr>"
      by simp
  qed
  have unread: "isUsedDocker r \<and> \<not> isOnDockerContainer w \<and> host r = Some h \<and>
    xbuild s r (buildPath s) ''.'' w = (None, w1) \<and> readPID w = Inl e' \<longrightarrow>
      Reload s r w =
        (Some (Errorf ''failed to send reloading signal'' (Errorf ''failed to read pid'' e')), r, w1)"
  proof
    assume a: "isUsedDocker r \<and> \<not> isOnDockerContainer w \<and> host r = Some h \<and>
      xbuild s r (buildPath s) ''.'' w = (None, w1) \<and> readPID w = Inl e'"
    then have "readPID w1 = Inl e'"
      using readPID_after_xbuild [of s r "buildPath s" "''.''" w] by simp
    moreover have "Docker h \<noteq> []"
      using a by (auto simp: isUsedDocker_def)
    ultimately show "Reload s r w =
        (Some (Errorf ''failed to send reloading signal'' (Errorf ''failed to read pid'' e')), r, w1)"
      using a by (simp add: Reload_def sendReloadingSignal_def)
  qed
  have signalled: "isUsedDocker r \<and> \<not> isOnDockerContainer w \<and> host r = Some h \<and>
    xbuild s r (buildPath s) ''.'' w = (None, w1) \<and> readPID w = Inr pid \<longrightarrow>
      Reload s r w =
        (map_option (\<lambda>x. Errorf ''failed to send reloading signal''
                            (Errorf ''failed to exec command on docker container'' x))
           (DockerCommand_fails s (trace w1) (Docker h) [''kill'', ''-HUP'', Sprint_int (sint pid)]),
         r,
         w1\<lparr>trace := trace w1 @ [DockerRun (Docker h) [''kill'', ''-HUP'', Sprint_int (sint pid)]]\<rparr>)"
  proof
    assume a: "isUsedDocker r \<and> \<not> isOnDockerContainer w \<and> host r = Some h \<and>
      xbuild s r (buildPath s) ''.'' w = (None, w1) \<and> readPID w = Inr pid"
    then have "readPID w1 = Inr pid"
      using readPID_after_xbuild [of s r "buildPath s" "''.''" w] by simp
    moreover have "Docker h \<noteq> []"
      using a by (auto simp: isUsedDocker_def)
    ultimately show "Reload s r w =
        (map_option (\<lambda>x. Errorf ''failed to send reloading signal''
                            (Errorf ''failed to exec command on docker container'' x))
           (DockerCommand_fails s (trace w1) (Docker h) [''kill'', ''-HUP'', Sprint_int (sint pid)]),
         r,
         w1\<lparr>trace := trace w1 @ [DockerRun (Docker h) [''kill'', ''-HUP'', Sprint_int (sint pid)]]\<rparr>)"
      using a by (simp add: Reload_def sendReloadingSignal_def DockerCommand_Run_def emit_def
          split: option.splits)
  qed
  show ?thesis
    by (intro conjI failed built unread signalled)
qed

theorem Reload_delegating_witness:
  "fst (Reload sys_compile_fails reloader_docker world_host_pid) =
     Some (Wrap ''failed to build on host'' (Wrap ''failed to build'' (External ''exit status 2''))) \<and>
   snd (xbuild sys_ok reloader_docker (buildPath sys_ok) ''.'' world_host_pid) =
     world_host_pid\<lparr>trace := buildEvents sys_ok build_cfg (Some ''web'')\<rparr> \<and>
   Reload sys_ok reloader_docker world_host =
     (Some (Wrap ''failed to send reloading signal'' (Wrap ''failed to read pid''
        (Wrap ''failed to read pid file'' (NotExist ''.rebirth/server.pid'')))),
      reloader_docker, world_host\<lparr>trace := buildEvents sys_ok build_cfg (Some ''web'')\<rparr>) \<and>
   Reload sys_ok reloader_docker world_host_pid =
     (None, reloader_docker,
      world_host_pid\<lparr>trace := buildEvents sys_ok build_cfg (Some ''web'') @
        [DockerRun ''web'' [''kill'', ''-HUP'', ''4242'']]\<rparr>)"
proof -
  let ?h = "\<lparr>Docker = ''web''\<rparr>"
  let ?bad = "Wrap ''failed to build'' (External ''exit status 2'')"
  let ?nofile = "Wrap ''failed to read pid file'' (NotExist ''.rebirth/server.pid'')"
  let ?w1 = "world_host_pid\<lparr>trace := buildEvents sys_ok build_cfg (Some ''web'')\<rparr>"
  let ?w2 = "world_host\<lparr>trace := buildEvents sys_ok build_cfg (Some ''web'')\<rparr>"
  have u: "isUsedDocker reloader_docker" "host reloader_docker = Some ?h"
    "build reloader_docker = Some build_cfg"
    by (simp_all add: isUsedDocker_def reloader_docker_def)
  have m: "\<not> isOnDockerContainer world_host_pid" "\<not> isOnDockerContainer world_host"
    by (simp_all add: isOnDockerContainer_def world_host_pid_def world_host_def)
  have x1: "xbuild sys_compile_fails reloader_docker (buildPath sys_compile_fails) ''.'' world_host_pid =
      (Some ?bad, snd (xbuild sys_compile_fails reloader_docker (buildPath sys_compile_fails) ''.'' world_host_pid))"
    by (simp add: model_defs sys_ok_def sys_compile_fails_def reloader_docker_def world_host_pid_def
        build_cfg_def)
  have x2: "xbuild sys_ok reloader_docker (buildPath sys_ok) ''.'' world_host_pid = (None, ?w1)"
    by (simp add: model_defs expected_defs sys_ok_def reloader_docker_def world_host_pid_def build_cfg_def)
  have x3: "xbuild sys_ok reloader_docker (buildPath sys_ok) ''.'' world_host = (None, ?w2)"
    by (simp add: model_defs expected_defs sys_ok_def reloader_docker_def world_host_def build_cfg_def)
  have r1: "readPID world_host_pid = Inr 4242"
    by (simp add: model_defs world_host_pid_def)
  have r2: "readPID world_host = Inl ?nofile"
    by (simp add: model_defs world_host_def)
  have d: "Sprint_int 4242 = ''4242''"
    by (simp add: model_defs)
  have g: "DockerCommand_fails sys_ok (trace ?w1) ''web'' [''kill'', ''-HUP'', ''4242''] = None"
    by (simp add: sys_ok_def)
  have t: "trace world_host_pid = []"
    by (simp add: world_host_pid_def)
  show ?thesis
    using Reload_delegating [of reloader_docker world_host_pid ?h sys_compile_fails ?bad
        "snd (xbuild sys_compile_fails reloader_docker (buildPath sys_compile_fails) ''.'' world_host_pid)"
        build_cfg ?nofile 4242]
      Reload_delegating [of reloader_docker world_host_pid ?h sys_ok ?bad ?w1 build_cfg ?nofile 4242]
      Reload_delegating [of reloader_docker world_host ?h sys_ok ?bad ?w2 build_cfg ?nofile 4242]
      u m x1 x2 x3 r1 r2 g
    by (simp add: d t)
qed

lemma reload_stopOutcome:
  "reload s r w =
     (case stopOutcome s r (trace w) of
        None \<Rightarrow> (None, r\<lparr>cmd := Some (newChild s r)\<rparr>, w\<lparr>trace := trace w @ restartEvents s r\<rparr>)
      | Some e \<Rightarrow>
          (Some (Errorf ''failed to stop current process'' (Errorf ''failed to stop process'' e)),
           r, w\<lparr>trace := trace w @ Print ''Restarting...'' # stopEvents r\<rparr>))"
  by (simp add: reload_eq stopOutcome_def stopEvents_def split: option.splits)

lemma xbuild_keeps_processes:
  "xbuild s r target source w = (res, w1) \<Longrightarrow>
   filter processEvent (trace w1) = filter processEvent (trace w)"
proof -
  assume x: "xbuild s r target source w = (res, w1)"
  obtain evs where "snd (xbuild s r target source w) = w\<lparr>trace := trace w @ evs\<rparr>"
    "filter processEvent evs = []"
    using xbuild_quiet [of s r target source w] by blast
  with x show ?thesis by simp
qed
section \<open>A reload trigger on the side that runs the program\<close>

text \<open>
  Claim C5, as stated, fails: inside the remote target the reload signal is
  answered by \<open>reload\<close> alone, which stops the child and starts a new one from
  the artifact as it is; no build command runs.
\<close>

theorem handleSIGHUP_restarts_without_build_counterexample:
  "isUsedDocker reloader_docker_child \<and> isOnDockerContainer world_container \<and>
   handleSIGHUP sys_ok reloader_docker_child world_container =
     (reloader_docker_child,
      world_container\<lparr>trace :=
        [Print ''Restarting...'', CommandStop child, CommandRunAsync child]\<rparr>)"
  by (simp add: handleSIGHUP_def model_defs Join.simps sys_ok_def reloader_docker_child_def
      world_container_def child_def)

text \<open>
  Claim C5, amended. A trigger raised through \<open>Reload\<close> in the Local topology
  rebuilds the artifact. When the build fails the error is returned, the
  reloader and its tracked child are unchanged and no child was stopped or
  started. When the build succeeds the instance is restarted in-process: the
  tracked child, if any, is stopped and a new child is started from the
  artifact, which becomes the tracked child; if that stop fails, the error is
  returned and the previous child stays tracked. A reload signal received by a
  running instance, in every topology and so inside the remote target, is
  answered by the restart alone: the events it leaves are those of the restart,
  none of which runs the build tool.
\<close>

theorem Reload_local_and_signal:
  "(\<not> isUsedDocker r \<and> xbuild s r (buildPath s) ''.'' w = (Some e, w1) \<longrightarrow>
      Reload s r w = (Some (Errorf ''failed to build on host'' e), r, w1) \<and>
      filter processEvent (trace w1) = filter processEvent (trace w)) \<and>
   (\<not> isUsedDocker r \<and> xbuild s r (buildPath s) ''.'' w = (None, w1) \<and> build r = Some b \<longrightarrow>
      w1 = w\<lparr>trace := trace w @ buildEvents s b None\<rparr>) \<and>
   (\<not> isUsedDocker r \<and> xbuild s r (buildPath s) ''.'' w = (None, w1) \<and>
    stopOutcome s r (trace w1) = None \<longrightarrow>
      Reload s r w =
        (None, r\<lparr>cmd := Some (newChild s r)\<rparr>, w1\<lparr>trace := trace w1 @ restartEvents s r\<rparr>)) \<and>
   (\<not> isUsedDocker r \<and> xbuild s r (buildPath s) ''.'' w = (None, w1) \<and>
    stopOutcome s r (trace w1) = Some e' \<longrightarrow>
      Reload s r w =
        (Some (Errorf ''failed to send reloading signal'' (Errorf ''failed to reload''
           (Errorf ''failed to stop current process'' (Errorf ''failed to stop process'' e')))),
         r, w1\<lparr>trace := trace w1 @ Print ''Restarting...'' # stopEvents r\<rparr>)) \<and>
   (stopOutcome s r (trace w) = None \<longrightarrow>
      handleSIGHUP s r w =
        (r\<lparr>cmd := Some (newChild s r)\<rparr>, w\<lparr>trace := trace w @ restartEvents s r\<rparr>) \<and>
      filter buildToolEvent (restartEvents s r) = [])"
proof -
  have failed: "\<not> isUsedDocker r \<and> xbuild s r (buildPath s) ''.'' w = (Some e, w1) \<longrightarrow>
      Reload s r w = (Some (Errorf ''failed to build on host'' e), r, w1) \<and>
      filter processEvent (trace w1) = filter processEvent (trace w)"
    using xbuild_keeps_processes [of s r "buildPath s" "''.''" w "Some e" w1]
    by (simp add: Reload_def)
  have built: "\<not> isUsedDocker r \<and> xbuild s r (buildPath s) ''.'' w = (None, w1) \<and> build r = Some b \<longrightarrow>
      w1 = w\<lparr>trace := trace w @ buildEvents s b None\<rparr>"
  proof
    assume a: "\<not> isUsedDocker r \<and> xbuild s r (buildPath s) ''.'' w = (None, w1) \<and> build r = Some b"
    then have "crossTarget r w = None"
      by (simp add: crossTarget_def)
    with a xbuild_success [of r b s w w1]
    show "w1 = w\<lparr>trace := trace w @ buildEvents s b None\<rparr>"
      by simp
  qed
  have send: "\<not> isUsedDocker r \<Longrightarrow>
      sendReloadingSignal s r w1 =
        (case reload s r w1 of
           (Some x, r', w') \<Rightarrow> (Some (Errorf ''failed to reload'' x), r', w')
         | (None, r', w') \<Rightarrow> (None, r', w'))"
    by (simp add: sendReloadingSignal_def isUsedDocker_def split: option.splits)
  have restarted: "\<not> isUsedDocker r \<and> xbuild s r (buildPath s) ''.'' w = (None, w1) \<and>
    stopOutcome s r (trace w1) = None \<longrightarrow>
      Reload s r w =
        (None, r\<lparr>cmd := Some (newChild s r)\<rparr>, w1\<lparr>trace := trace w1 @ restartEvents s r\<rparr>)"
    by (simp add: Reload_def send reload_stopOutcome)
  have stuck: "\<not> isUsedDocker r \<and> xbuild s r (buildPath s) ''.'' w = (None, w1) \<and>
    stopOutcome s r (trace w1) = Some e' \<longrightarrow>
      Reload s r w =
        (Some (Errorf ''failed to send reloading signal'' (Errorf ''failed to reload''
           (Errorf ''failed to stop current process'' (Errorf ''failed to stop process'' e')))),
         r, w1\<lparr>trace := trace w1 @ Print ''Restarting...'' # stopEvents r\<rparr>)"
    by (simp add: Reload_def send reload_stopOutcome)
  have signal: "stopOutcome s r (trace w) = None \<longrightarrow>
      handleSIGHUP s r w =
        (r\<lparr>cmd := Some (newChild s r)\<rparr>, w\<lparr>trace := trace w @ restartEvents s r\<rparr>) \<and>
      filter buildToolEvent (restartEvents s r) = []"
    by (simp add: handleSIGHUP_def reload_stopOutcome buildToolEvent_restartEvents)
  show ?thesis
    by (intro conjI failed built restarted stuck signal)
qed

theorem Reload_local_and_signal_witness:
  "Reload sys_compile_fails reloader_local_child world_host =
     (Some (Wrap ''failed to build on host'' (Wrap ''failed to build'' (External ''exit status 2''))),
      reloader_local_child,
      snd (xbuild sys_compile_fails reloader_local_child (buildPath sys_compile_fails) ''.'' world_host)) \<and>
   filter processEvent
     (trace (snd (xbuild sys_compile_fails reloader_local_child (buildPath sys_compile_fails) ''.'' world_host))) = [] \<and>
   Reload sys_ok reloader_local_child world_host =
     (None, reloader_local_child,
      world_host\<lparr>trace := buildEvents sys_ok build_cfg None @
        [Print ''Restarting...'', CommandStop child, CommandRunAsync child]\<rparr>) \<and>
   Reload sys_stop_fails reloader_local_child world_host =
     (Some (Wrap ''failed to send reloading signal'' (Wrap ''failed to reload''
        (Wrap ''failed to stop current process'' (Wrap ''failed to stop process''
           (External ''operation not permitted''))))),
      reloader_local_child,
      world_host\<lparr>trace := buildEvents sys_stop_fails build_cfg None @
        [Print ''Restarting...'', CommandStop child]\<rparr>) \<and>
   handleSIGHUP sys_ok reloader_docker_child world_container =
     (reloader_docker_child,
      world_container\<lparr>trace := [Print ''Restarting...'', CommandStop child, CommandRunAsync child]\<rparr>)"
proof -
  let ?bad = "Wrap ''failed to build'' (External ''exit status 2'')"
  let ?denied = "External ''operation not permitted''"
  let ?x = "snd (xbuild sys_compile_fails reloader_local_child (buildPath sys_compile_fails) ''.'' world_host)"
  let ?w1 = "world_host\<lparr>trace := buildEvents sys_ok build_cfg None\<rparr>"
  let ?w2 = "world_host\<lparr>trace := buildEvents sys_stop_fails build_cfg None\<rparr>"
  have u: "\<not> isUsedDocker reloader_local_child" "build reloader_local_child = Some build_cfg"
    by (simp_all add: isUsedDocker_def reloader_local_child_def)
  have x1: "xbuild sys_compile_fails reloader_local_child (buildPath sys_compile_fails) ''.'' world_host =
      (Some ?bad, ?x)"
    by (simp add: model_defs sys_ok_def sys_compile_fails_def reloader_local_child_def world_host_def
        build_cfg_def)
  have x2: "xbuild sys_ok reloader_local_child (buildPath sys_ok) ''.'' world_host = (None, ?w1)"
    by (simp add: model_defs expected_defs sys_ok_def reloader_local_child_def world_host_def build_cfg_def)
  have x3: "xbuild sys_stop_fails reloader_local_child (buildPath sys_stop_fails) ''.'' world_host = (None, ?w2)"
    by (simp add: model_defs expected_defs sys_ok_def sys_stop_fails_def reloader_local_child_def
        world_host_def build_cfg_def)
  have o: "stopOutcome sys_ok reloader_local_child (trace ?w1) = None"
    "stopOutcome sys_stop_fails reloader_local_child (trace ?w2) = Some ?denied"
    "stopOutcome sys_ok reloader_docker_child (trace world_container) = None"
    by (simp_all add: stopOutcome_def sys_ok_def sys_stop_fails_def reloader_local_child_def
        reloader_docker_child_def)
  have n: "newChild sys_ok reloader_local_child = child" "newChild sys_ok reloader_docker_child = child"
    by (simp_all add: newChild_def NewCommand_def buildPath_def configDir_def sys_ok_def child_def
        reloader_local_child_def reloader_docker_child_def)
  have c: "reloader_local_child\<lparr>cmd := Some child\<rparr> = reloader_local_child"
    "reloader_docker_child\<lparr>cmd := Some child\<rparr> = reloader_docker_child"
    "cmd reloader_local_child = Some child" "cmd reloader_docker_child = Some child"
    by (simp_all add: reloader_local_child_def reloader_docker_child_def)
  have t: "trace world_host = []" "trace world_container = []"
    by (simp_all add: world_host_def world_container_def)
  show ?thesis
    using Reload_local_and_signal [of reloader_local_child sys_compile_fails world_host ?bad ?x build_cfg ?denied]
      Reload_local_and_signal [of reloader_local_child sys_ok world_host ?bad ?w1 build_cfg ?denied]
      Reload_local_and_signal [of reloader_local_child sys_stop_fails world_host ?bad ?w2 build_cfg ?denied]
      Reload_local_and_signal [of reloader_docker_child sys_ok world_container ?bad ?w1 build_cfg ?denied]
      u x1 x2 x3 o
    by (simp add: n c t restartEvents_def stopEvents_def)
qed

section \<open>Startup\<close>

lemma crossTarget_trace: "crossTarget r (w\<lparr>trace := t\<rparr>) = crossTarget r w"
  by (simp add: crossTarget_def isOnDockerContainer_def)

lemma Run_localhost_success:
  assumes b: "build r = Some b" and x: "Run_localhost s r w = (Waiting, r', w')"
  shows "r' = r\<lparr>cmd := Some (newChild s r)\<rparr> \<and>
         w' = w\<lparr>trace := trace w @ hookEvents s b (Init b) @ buildEvents s b (crossTarget r w) @
                          restartEvents s r @ [NotifySIGHUP]\<rparr>"
proof -
  obtain w1 where 1: "runBuildInitCommands s r w = (None, w1)"
    using x by (auto simp: Run_localhost_def split: prod.splits option.splits)
  then have w1: "w1 = w\<lparr>trace := trace w @ hookEvents s b (Init b)\<rparr>"
    using b runCommands_success [OF b] by (simp add: runBuildInitCommands_def)
  obtain w2 where 2: "xbuild s r (buildPath s) ''.'' w1 = (None, w2)"
    using x 1 by (auto simp: Run_localhost_def split: prod.splits option.splits)
  have w2: "w2 = w1\<lparr>trace := trace w1 @ buildEvents s b (crossTarget r w)\<rparr>"
    using xbuild_success [OF b 2] by (simp add: w1 crossTarget_trace)
  obtain r3 w3 where 3: "reload s r w2 = (None, r3, w3)"
    using x 1 2 by (auto simp: Run_localhost_def split: prod.splits option.splits)
  have e: "r' = r3" "w' = watchReloadSignal w3"
    using x 1 2 3 by (simp_all add: Run_localhost_def)
  from reload_success [OF 3] show ?thesis
    by (simp add: e w1 w2 watchReloadSignal_def emit_def)
qed

lemma Run_localhost_needs_build: "Run_localhost s r w = (Waiting, r', w') \<Longrightarrow> build r \<noteq> None"
  by (auto simp: Run_localhost_def runBuildInitCommands_def split: option.splits prod.splits)

lemma Run_reloadDisabled_success:
  assumes x: "Run_reloadDisabled s r w = (Waiting, r', w')"
  shows "r' = r\<lparr>cmd := Some (newChild s r)\<rparr> \<and>
         w' = w\<lparr>files := (files w)(pidPath \<mapsto> Sprint_int (sint (Getpid s))),
                trace := trace w @ restartEvents s r @ [NotifySIGHUP]\<rparr>"
proof -
  let ?w1 = "w\<lparr>files := (files w)(pidPath \<mapsto> Sprint_int (sint (Getpid s)))\<rparr>"
  have 1: "writePID s w = (None, ?w1)"
    using x by (auto simp: Run_reloadDisabled_def writePID_def Let_def split: prod.splits option.splits)
  obtain r2 w2 where 2: "reload s r ?w1 = (None, r2, w2)"
    using x 1 by (auto simp: Run_reloadDisabled_def split: prod.splits option.splits)
  have e: "r' = r2" "w' = watchReloadSignal w2"
    using x 1 2 by (simp_all add: Run_reloadDisabled_def)
  from reload_success [OF 2] show ?thesis
    by (simp add: e watchReloadSignal_def emit_def)
qed
text \<open>
  Claim C2, as stated, fails: the Local startup succeeds and there is no pid
  file afterwards; \<open>writePID\<close> is called in the first arm of \<open>Run\<close> only.
\<close>

theorem Run_local_writes_no_pid_counterexample:
  "\<not> isUsedDocker reloader_local \<and>
   fst (Run sys_ok reloader_local world_host) = Waiting \<and>
   files (snd (snd (Run sys_ok reloader_local world_host))) pidPath = None"
  by (simp add: Run_def Run_localhost_def IsEnabledReload_def watchReloadSignal_def model_defs
      sys_ok_def reloader_local_def world_host_def build_cfg_def)

text \<open>
  Claim C2, amended. For every configuration with no remote target, a startup
  that succeeds has run the init phase, then the build (before phase, compiler
  without cross build, after phase), has then started the program, which is the
  tracked child from then on, and has subscribed to the reload signal, in this
  order and with nothing else; the build section is present; and the files,
  the pid file among them, are as they were before.
\<close>

theorem Run_local_startup:
  "(\<not> isUsedDocker r \<and> Run s r w = (Waiting, r', w') \<longrightarrow>
      build r \<noteq> None \<and> r' = r\<lparr>cmd := Some (newChild s r)\<rparr> \<and> files w' = files w) \<and>
   (\<not> isUsedDocker r \<and> Run s r w = (Waiting, r', w') \<and> build r = Some b \<longrightarrow>
      w' = w\<lparr>trace := trace w @ hookEvents s b (Init b) @ buildEvents s b None @
                       restartEvents s r @ [NotifySIGHUP]\<rparr>)"
proof -
  have arm: "\<not> isUsedDocker r \<Longrightarrow> Run s r w = Run_localhost s r w"
    by (simp add: Run_def IsEnabledReload_def)
  have target: "\<not> isUsedDocker r \<Longrightarrow> crossTarget r w = None"
    by (simp add: crossTarget_def)
  have events: "\<not> isUsedDocker r \<and> Run s r w = (Waiting, r', w') \<and> build r = Some b \<longrightarrow>
      w' = w\<lparr>trace := trace w @ hookEvents s b (Init b) @ buildEvents s b None @
                       restartEvents s r @ [NotifySIGHUP]\<rparr>"
  proof
    assume a: "\<not> isUsedDocker r \<and> Run s r w = (Waiting, r', w') \<and> build r = Some b"
    then have n: "\<not> isUsedDocker r" and b: "build r = Some b"
      by simp_all
    have x: "Run_localhost s r w = (Waiting, r', w')"
      using a arm [OF n] by simp
    from Run_localhost_success [OF b x]
    show "w' = w\<lparr>trace := trace w @ hookEvents s b (Init b) @ buildEvents s b None @
                       restartEvents s r @ [NotifySIGHUP]\<rparr>"
      by (simp add: target [OF n])
  qed
  have state: "\<not> isUsedDocker r \<and> Run s r w = (Waiting, r', w') \<longrightarrow>
      build r \<noteq> None \<and> r' = r\<lparr>cmd := Some (newChild s r)\<rparr> \<and> files w' = files w"
  proof
    assume a: "\<not> isUsedDocker r \<and> Run s r w = (Waiting, r', w')"
    then have n: "\<not> isUsedDocker r"
      by simp
    have x: "Run_localhost s r w = (Waiting, r', w')"
      using a arm [OF n] by simp
    then obtain b where b: "build r = Some b"
      using Run_localhost_needs_build [of s r w r' w'] by auto
    from Run_localhost_success [OF b x] b
    show "build r \<noteq> None \<and> r' = r\<lparr>cmd := Some (newChild s r)\<rparr> \<and> files w' = files w"
      by simp
  qed
  show ?thesis
    by (intro conjI state events)
qed

theorem Run_local_startup_witness:
  "\<not> isUsedDocker reloader_local \<and>
   fst (Run sys_ok reloader_local world_host) = Waiting \<and>
   fst (snd (Run sys_ok reloader_local world_host)) = reloader_local_child \<and>
   files (snd (snd (Run sys_ok reloader_local world_host))) = Map.empty \<and>
   trace (snd (snd (Run sys_ok reloader_local world_host))) =
     hookEvents sys_ok build_cfg [''mod download''] @ buildEvents sys_ok build_cfg None @
     [Print ''Restarting...'', CommandRunAsync child, NotifySIGHUP]"
proof -
  let ?R = "Run sys_ok reloader_local world_host"
  have u: "\<not> isUsedDocker reloader_local" "build reloader_local = Some build_cfg"
    by (simp_all add: isUsedDocker_def reloader_local_def)
  have x: "fst ?R = Waiting"
    by (simp add: Run_def Run_localhost_def IsEnabledReload_def watchReloadSignal_def model_defs
        sys_ok_def reloader_local_def world_host_def build_cfg_def)
  then have p: "?R = (Waiting, fst (snd ?R), snd (snd ?R))"
    by (metis prod.collapse)
  have n: "reloader_local\<lparr>cmd := Some (newChild sys_ok reloader_local)\<rparr> = reloader_local_child"
    by (simp add: newChild_def NewCommand_def buildPath_def configDir_def sys_ok_def child_def
        reloader_local_def reloader_local_child_def)
  have i: "Init build_cfg = [''mod download'']"
    by (simp add: build_cfg_def)
  have e: "restartEvents sys_ok reloader_local = [Print ''Restarting...'', CommandRunAsync child]"
    by (simp add: restartEvents_def stopEvents_def newChild_def NewCommand_def buildPath_def
        configDir_def sys_ok_def child_def reloader_local_def)
  have f: "files world_host = Map.empty" "trace world_host = []"
    by (simp_all add: world_host_def)
  show ?thesis
    using Run_local_startup [of reloader_local sys_ok world_host "fst (snd ?R)" "snd (snd ?R)" build_cfg]
      u x p
    by (simp add: n i e f)
qed

text \<open>
  Claim C3, as stated, fails: with the remote target and the marker the startup
  writes the pid file and starts the program without any build, while the same
  configuration without the remote target runs the init phase and the build
  first and writes no pid file.
\<close>

theorem Run_inside_differs_from_local_counterexample:
  "isUsedDocker reloader_docker \<and> isOnDockerContainer world_container \<and>
   reloader_docker\<lparr>host := None\<rparr> = reloader_local \<and> \<not> isUsedDocker reloader_local \<and>
   fst (Run sys_ok reloader_docker world_container) = Waiting \<and>
   fst (Run sys_ok reloader_local world_container) = Waiting \<and>
   trace (snd (snd (Run sys_ok reloader_docker world_container))) =
     [Print ''Restarting...'', CommandRunAsync child, NotifySIGHUP] \<and>
   trace (snd (snd (Run sys_ok reloader_local world_container))) =
     [Print (''Running: mod download'' @ [CHR 0x0A]),
      GoRunInGoContext \<lparr>goenv = [''CGO_ENABLED=0''], cross = None, dir = None\<rparr> [''mod'', ''download''],
      Print ''Building....'',
      Print (''Running: generate ./...'' @ [CHR 0x0A]),
      GoRunInGoContext \<lparr>goenv = [''CGO_ENABLED=0''], cross = None, dir = None\<rparr> [''generate'', ''./...''],
      GoBuild \<lparr>goenv = [''CGO_ENABLED=0''], cross = None, dir = None\<rparr>
        [''-o'', ''/app/.rebirth/program'', ''.''],
      Print (''Running: vet ./...'' @ [CHR 0x0A]),
      GoRunInGoContext \<lparr>goenv = [''CGO_ENABLED=0''], cross = None, dir = None\<rparr> [''vet'', ''./...''],
      Print ''Restarting...'', CommandRunAsync child, NotifySIGHUP] \<and>
   files (snd (snd (Run sys_ok reloader_docker world_container))) ''.rebirth/server.pid'' = Some ''4242'' \<and>
   files (snd (snd (Run sys_ok reloader_local world_container))) ''.rebirth/server.pid'' = None"
  by (simp add: Run_def Run_localhost_def Run_reloadDisabled_def IsEnabledReload_def writePID_def
      watchReloadSignal_def model_defs sys_ok_def reloader_local_def reloader_docker_def
      world_container_def build_cfg_def child_def)

text \<open>
  Claim C3, amended. For every configuration with a remote target, a startup
  inside the remote target (marker present) that succeeds has written the
  supervisor's process id to the pid file, has started the program, which is
  the tracked child from then on, and has subscribed to the reload signal, and
  has run no build command. The startup of the same configuration without the
  remote target, when it succeeds, ends with the same restart and subscription,
  after the init phase and the build, and leaves the files as they were. The two
  startups share their last steps and nothing else.
\<close>

theorem Run_inside_remote_startup:
  "(isUsedDocker r \<and> isOnDockerContainer w \<and> Run s r w = (Waiting, r', w') \<longrightarrow>
      r' = r\<lparr>cmd := Some (newChild s r)\<rparr> \<and>
      w' = w\<lparr>files := (files w)(pidPath \<mapsto> Sprint_int (sint (Getpid s))),
             trace := trace w @ restartEvents s r @ [NotifySIGHUP]\<rparr> \<and>
      filter buildToolEvent (restartEvents s r @ [NotifySIGHUP]) = []) \<and>
   (isUsedDocker r \<and> build r = Some b \<and> Run s (r\<lparr>host := None\<rparr>) w = (Waiting, r'', w'') \<longrightarrow>
      r'' = r\<lparr>host := None, cmd := Some (newChild s r)\<rparr> \<and>
      w'' = w\<lparr>trace := trace w @ hookEvents s b (Init b) @ buildEvents s b None @
                        restartEvents s r @ [NotifySIGHUP]\<rparr>)"
proof -
  have inside: "isUsedDocker r \<and> isOnDockerContainer w \<and> Run s r w = (Waiting, r', w') \<longrightarrow>
      r' = r\<lparr>cmd := Some (newChild s r)\<rparr> \<and>
      w' = w\<lparr>files := (files w)(pidPath \<mapsto> Sprint_int (sint (Getpid s))),
             trace := trace w @ restartEvents s r @ [NotifySIGHUP]\<rparr> \<and>
      filter buildToolEvent (restartEvents s r @ [NotifySIGHUP]) = []"
  proof
    assume a: "isUsedDocker r \<and> isOnDockerContainer w \<and> Run s r w = (Waiting, r', w')"
    then have "Run s r w = Run_reloadDisabled s r w"
      by (simp add: Run_def IsEnabledReload_def)
    with a have x: "Run_reloadDisabled s r w = (Waiting, r', w')"
      by simp
    from Run_reloadDisabled_success [OF x]
    show "r' = r\<lparr>cmd := Some (newChild s r)\<rparr> \<and>
      w' = w\<lparr>files := (files w)(pidPath \<mapsto> Sprint_int (sint (Getpid s))),
             trace := trace w @ restartEvents s r @ [NotifySIGHUP]\<rparr> \<and>
      filter buildToolEvent (restartEvents s r @ [NotifySIGHUP]) = []"
      by (simp add: buildToolEvent_restartEvents)
  qed
  have local: "isUsedDocker r \<and> build r = Some b \<and> Run s (r\<lparr>host := None\<rparr>) w = (Waiting, r'', w'') \<longrightarrow>
      r'' = r\<lparr>host := None, cmd := Some (newChild s r)\<rparr> \<and>
      w'' = w\<lparr>trace := trace w @ hookEvents s b (Init b) @ buildEvents s b None @
                        restartEvents s r @ [NotifySIGHUP]\<rparr>"
  proof
    let ?r = "r\<lparr>host := None\<rparr>"
    assume a: "isUsedDocker r \<and> build r = Some b \<and> Run s ?r w = (Waiting, r'', w'')"
    have n: "\<not> isUsedDocker ?r"
      by (simp add: isUsedDocker_def)
    then have "Run s ?r w = Run_localhost s ?r w"
      by (simp add: Run_def IsEnabledReload_def)
    with a have x: "Run_localhost s ?r w = (Waiting, r'', w'')"
      by simp
    have b: "build ?r = Some b"
      using a by simp
    have same: "newChild s ?r = newChild s r" "restartEvents s ?r = restartEvents s r"
      "crossTarget ?r w = None"
      using n by (simp_all add: newChild_def restartEvents_def stopEvents_def crossTarget_def)
    from Run_localhost_success [OF b x]
    show "r'' = r\<lparr>host := None, cmd := Some (newChild s r)\<rparr> \<and>
      w'' = w\<lparr>trace := trace w @ hookEvents s b (Init b) @ buildEvents s b None @
                        restartEvents s r @ [NotifySIGHUP]\<rparr>"
      by (simp add: same)
  qed
  show ?thesis
    by (intro conjI inside local)
qed

theorem Run_inside_remote_startup_witness:
  "isUsedDocker reloader_docker \<and> isOnDockerContainer world_container \<and>
   fst (Run sys_ok reloader_docker world_container) = Waiting \<and>
   fst (snd (Run sys_ok reloader_docker world_container)) = reloader_docker_child \<and>
   snd (snd (Run sys_ok reloader_docker world_container)) =
     world_container\<lparr>files := (files world_container)(''.rebirth/server.pid'' \<mapsto> ''4242''),
       trace := [Print ''Restarting...'', CommandRunAsync child, NotifySIGHUP]\<rparr> \<and>
   fst (Run sys_ok (reloader_docker\<lparr>host := None\<rparr>) world_container) = Waiting \<and>
   fst (snd (Run sys_ok (reloader_docker\<lparr>host := None\<rparr>) world_container)) = reloader_local_child \<and>
   snd (snd (Run sys_ok (reloader_docker\<lparr>host := None\<rparr>) world_container)) =
     world_container\<lparr>trace := hookEvents sys_ok build_cfg [''mod download''] @
       buildEvents sys_ok build_cfg None @
       [Print ''Restarting...'', CommandRunAsync child, NotifySIGHUP]\<rparr>"
proof -
  let ?R = "Run sys_ok reloader_docker world_container"
  let ?L = "Run sys_ok (reloader_docker\<lparr>host := None\<rparr>) world_container"
  have u: "isUsedDocker reloader_docker" "build reloader_docker = Some build_cfg"
    by (simp_all add: isUsedDocker_def reloader_docker_def)
  have m: "isOnDockerContainer world_container"
    by (simp add: isOnDockerContainer_def world_container_def)
  have x: "fst ?R = Waiting"
    by (simp add: Run_def Run_reloadDisabled_def IsEnabledReload_def writePID_def
        watchReloadSignal_def model_defs sys_ok_def reloader_docker_def world_container_def)
  then have p: "?R = (Waiting, fst (snd ?R), snd (snd ?R))"
    by (metis prod.collapse)
  have y: "fst ?L = Waiting"
    by (simp add: Run_def Run_localhost_def IsEnabledReload_def watchReloadSignal_def model_defs
        sys_ok_def reloader_docker_def world_container_def build_cfg_def)
  then have q: "?L = (Waiting, fst (snd ?L), snd (snd ?L))"
    by (metis prod.collapse)
  have n: "reloader_docker\<lparr>cmd := Some (newChild sys_ok reloader_docker)\<rparr> = reloader_docker_child"
    "reloader_docker\<lparr>host := None, cmd := Some (newChild sys_ok reloader_docker)\<rparr> = reloader_local_child"
    by (simp_all add: newChild_def NewCommand_def buildPath_def configDir_def sys_ok_def child_def
        reloader_docker_def reloader_docker_child_def reloader_local_child_def)
  have i: "Init build_cfg = [''mod download'']"
    by (simp add: build_cfg_def)
  have e: "restartEvents sys_ok reloader_docker = [Print ''Restarting...'', CommandRunAsync child]"
    by (simp add: restartEvents_def stopEvents_def newChild_def NewCommand_def buildPath_def
        configDir_def sys_ok_def child_def reloader_docker_def)
  have d: "Sprint_int (sint (Getpid sys_ok)) = ''4242''" "pidPath = ''.rebirth/server.pid''"
    by (simp_all add: model_defs sys_ok_def)
  have t: "trace world_container = []"
    by (simp add: world_container_def)
  show ?thesis
    using Run_inside_remote_startup [of reloader_docker world_container sys_ok
        "fst (snd ?R)" "snd (snd ?R)" build_cfg "fst (snd ?L)" "snd (snd ?L)"]
      u m x p y q
    by (simp add: n i e d t)
qed

section \<open>The phase lists of the configuration\<close>

text \<open>
  Claim C9 at a configuration file whose build section lists a command for each
  of init, before and after beside the environment: \<open>LoadConfig\<close> succeeds and
  the configuration it returns holds the environment and none of the three
  lists, so the reloader made from it runs no command in its init phase.
\<close>

theorem LoadConfig_drops_phase_lists:
  "LoadConfig (\<lambda>text. Inr config_document) world_config ''rebirth.yml'' =
     Inr \<lparr>cfgHost = None,
          cfgBuild = Some \<lparr>Init = [], Before = [], After = [], Env = [(''CGO_ENABLED'', ''0'')]\<rparr>,
          cfgRun = None\<rparr> \<and>
   runBuildInitCommands sys_ok
     (NewReloader \<lparr>cfgHost = None,
          cfgBuild = Some \<lparr>Init = [], Before = [], After = [], Env = [(''CGO_ENABLED'', ''0'')]\<rparr>,
          cfgRun = None\<rparr>) world_host = (None, world_host)"
  by (simp add: LoadConfig_def Unmarshal_def decode_section_def decode_Build_def decode_env_def
      config_document_def world_config_def NewReloader_def runBuildInitCommands_def)

end
